theory Spec2Isabelle
  imports Main
begin

section \<open>Values, errors and the outside world\<close>

text \<open>
  The server (\<^verbatim>\<open>src/src/server.js\<close>) is a Node.js process that talks to Redis, the file
  system, the OpenAI API and the WhatsApp API. Its functions are embedded as state
  transformers on a \<open>world\<close> record; every \<^verbatim>\<open>throw\<close> or rejected promise is the \<open>Inl\<close>
  branch of the result.

  JavaScript values, as far as the program builds and inspects them: the JSON values and
  \<^verbatim>\<open>undefined\<close> (the result of reading a missing property; it never occurs inside a JSON
  text). Numbers are integers; object keys are distinct.
\<close>

datatype js =
    JUndefined
  | JNull
  | JBool bool
  | JNum int
  | JStr string
  | JArr "js list"
  | JObj "(string \<times> js) list"

text \<open>
  A string held by Redis is represented by what the program can observe of it:
  \<open>Json v\<close> is the text \<^verbatim>\<open>JSON.stringify(v)\<close> (for an integer \<open>n\<close> also \<^verbatim>\<open>String(n)\<close>), on which
  \<^verbatim>\<open>JSON.parse\<close> gives \<open>v\<close> back; \<open>Raw s\<close> is the text with characters \<open>s\<close>, which is not a
  JSON text, so \<^verbatim>\<open>JSON.parse\<close> throws a SyntaxError on it. \<open>Raw []\<close> is the empty string, the
  only falsy string.
\<close>

datatype rtext = Json js | Raw string

text \<open>The result of \<^verbatim>\<open>parseInt\<close> and of the token arithmetic: an integer or \<^verbatim>\<open>NaN\<close>.\<close>

datatype number = Finite int | NaN

text \<open>
  What can be thrown. An axios error carries \<^verbatim>\<open>error.response\<close> when the server answered
  (with its HTTP status and, for WhatsApp, \<^verbatim>\<open>response.data.error.code\<close>) and no response on
  a network failure. \<open>NotAuthorized to\<close> is the \<^verbatim>\<open>new Error(`Recipient ${to} not authorized ...`)\<close>
  of line 128.
\<close>

record response =
  status :: int
  data_error_code :: "int option"

datatype error =
    AxiosError "response option"
  | RedisError
  | FsError
  | OpenAIError
  | SyntaxError
  | TypeError
  | NotAuthorized string

datatype redis_cmd = GET string | SET string | EXPIRE string | FLUSHALL

datatype level = Log | Warn | Error

text \<open>
  The trace records every call that leaves the process, in order: Redis commands, the read
  of the persona file, the completion request with its prompt, the HTTP post with
  recipient and body, \<^verbatim>\<open>setTimeout\<close> with the delay asked for, and console output.
\<close>

datatype event =
    Redis redis_cmd
  | ReadFile
  | Completion "js list"
  | Post string js
  | Sleep int
  | Console level

text \<open>
  \<^verbatim>\<open>completion.usage\<close> and the parts of the completion the program reads:
  \<^verbatim>\<open>completion.choices[0].message.content\<close> and \<^verbatim>\<open>completion.usage\<close>.
\<close>

record usage =
  prompt_tokens :: int
  completion_tokens :: int
  total_tokens :: int

record completion =
  choice_content :: string
  completion_usage :: usage

text \<open>
  A Redis entry: its text and, when it has a time to live, the instant (in milliseconds)
  at which it expires.
\<close>

record entry =
  text_of :: rtext
  deadline :: "int option"

text \<open>
  The state: the clock read by \<^verbatim>\<open>Date.now()\<close>, the two module-level counters of the send
  limiter (lines 61-62), the Redis keyspace, the \<^verbatim>\<open>last_message:<to>\<close> keys (written with
  the message itself and never read back, so they are kept as the value passed), and the
  trace.
\<close>

record world =
  now :: int
  messagesSentInWindow :: int
  windowStart :: int
  redis :: "string \<rightharpoonup> entry"
  last_message :: "string \<rightharpoonup> js \<times> int option"
  trace :: "event list"

text \<open>
  The environment decides what the outside answers. Each oracle is indexed by the length
  of the trace at the moment of the call, so a failure may be permanent or intermittent.
  \<open>process_env\<close> is \<^verbatim>\<open>process.env\<close>.
\<close>

record env =
  redis_fails :: "nat \<Rightarrow> redis_cmd \<Rightarrow> bool"
  readFile :: "nat \<Rightarrow> error + string"
  openai_create :: "nat \<Rightarrow> js list \<Rightarrow> error + completion"
  axios_post :: "nat \<Rightarrow> string \<Rightarrow> js \<Rightarrow> error + js"
  process_env :: "string \<rightharpoonup> string"

subsection \<open>Sequencing with exceptions\<close>

type_synonym 'a io = "world \<Rightarrow> (error + 'a) \<times> world"

definition return :: "'a \<Rightarrow> 'a io" where
  "return x w = (Inr x, w)"

definition throw :: "error \<Rightarrow> 'a io" where
  "throw e w = (Inl e, w)"

definition bind :: "'a io \<Rightarrow> ('a \<Rightarrow> 'b io) \<Rightarrow> 'b io" where
  "bind m f w = (case m w of (Inl e, w') \<Rightarrow> (Inl e, w') | (Inr x, w') \<Rightarrow> f x w')"

text \<open>\<^verbatim>\<open>try { m } catch (error) { h error }\<close>\<close>

definition try_catch :: "'a io \<Rightarrow> (error \<Rightarrow> 'a io) \<Rightarrow> 'a io" where
  "try_catch m h w = (case m w of (Inl e, w') \<Rightarrow> h e w' | (Inr x, w') \<Rightarrow> (Inr x, w'))"

definition lift :: "error + 'a \<Rightarrow> 'a io" where
  "lift r w = (r, w)"

definition emit :: "event \<Rightarrow> world \<Rightarrow> world" where
  "emit e w = w\<lparr>trace := trace w @ [e]\<rparr>"

definition console :: "level \<Rightarrow> unit io" where
  "console l w = (Inr (), emit (Console l) w)"

subsection \<open>Timers\<close>

text \<open>
  \<^verbatim>\<open>await new Promise(resolve => setTimeout(resolve, d))\<close>: Node.js sets a delay below 1 or
  above 2147483647 to 1. The timer is taken to fire exactly when due.
\<close>

definition timer_delay :: "int \<Rightarrow> int" where
  "timer_delay d = (if d < 1 \<or> d > 2147483647 then 1 else d)"

definition setTimeout :: "int \<Rightarrow> world \<Rightarrow> world" where
  "setTimeout d w = emit (Sleep d) (w\<lparr>now := now w + timer_delay d\<rparr>)"

subsection \<open>Redis\<close>

definition live :: "int \<Rightarrow> entry \<Rightarrow> bool" where
  "live t e = (case deadline e of None \<Rightarrow> True | Some d \<Rightarrow> t < d)"

definition lookup :: "world \<Rightarrow> string \<Rightarrow> rtext option" where
  "lookup w key =
     (case redis w key of
        None \<Rightarrow> None
      | Some e \<Rightarrow> if live (now w) e then Some (text_of e) else None)"

text \<open>\<^verbatim>\<open>redis.get(key)\<close>: the text, or \<open>None\<close> for \<^verbatim>\<open>null\<close> when the key is absent or expired.\<close>

definition redis_get :: "env \<Rightarrow> string \<Rightarrow> rtext option io" where
  "redis_get env key w =
     (if redis_fails env (length (trace w)) (GET key)
      then (Inl RedisError, emit (Redis (GET key)) w)
      else (Inr (lookup w key), emit (Redis (GET key)) w))"

text \<open>\<^verbatim>\<open>redis.set(key, value, 'EX', seconds)\<close>\<close>

definition redis_set_ex :: "env \<Rightarrow> string \<Rightarrow> rtext \<Rightarrow> int \<Rightarrow> unit io" where
  "redis_set_ex env key v seconds w =
     (if redis_fails env (length (trace w)) (SET key)
      then (Inl RedisError, emit (Redis (SET key)) w)
      else (Inr (),
            emit (Redis (SET key))
              (w\<lparr>redis := (redis w)(key \<mapsto>
                    \<lparr>text_of = v, deadline = Some (now w + seconds * 1000)\<rparr>)\<rparr>)))"

text \<open>\<^verbatim>\<open>redis.flushall()\<close>\<close>

definition redis_flushall :: "env \<Rightarrow> unit io" where
  "redis_flushall env w =
     (if redis_fails env (length (trace w)) FLUSHALL
      then (Inl RedisError, emit (Redis FLUSHALL) w)
      else (Inr (),
            emit (Redis FLUSHALL) (w\<lparr>redis := Map.empty, last_message := Map.empty\<rparr>)))"

subsection \<open>Reading texts\<close>

text \<open>\<^verbatim>\<open>x ? ... : ...\<close> on the result of \<^verbatim>\<open>redis.get\<close>: \<^verbatim>\<open>null\<close> and the empty string are falsy.\<close>

definition truthy :: "rtext option \<Rightarrow> bool" where
  "truthy x = (case x of None \<Rightarrow> False | Some t \<Rightarrow> t \<noteq> Raw [])"

definition JSON_parse :: "rtext \<Rightarrow> error + js" where
  "JSON_parse t = (case t of Json v \<Rightarrow> Inr v | Raw s \<Rightarrow> Inl SyntaxError)"

definition JSON_stringify :: "js \<Rightarrow> rtext" where
  "JSON_stringify v = Json v"

text \<open>
  \<^verbatim>\<open>parseInt\<close> on a text: optional white space, an optional sign, then decimal digits as
  far as they go, or hexadecimal digits after \<^verbatim>\<open>0x\<close>; \<^verbatim>\<open>NaN\<close> when there is no digit. A JSON
  text starts with a digit or a minus sign only when it is a number.
\<close>

definition digit_of :: "nat \<Rightarrow> char \<Rightarrow> nat option" where
  "digit_of radix c =
     (let k = of_char c :: nat;
          d = (if 48 \<le> k \<and> k \<le> 57 then Some (k - 48)
               else if 97 \<le> k \<and> k \<le> 122 then Some (k - 87)
               else if 65 \<le> k \<and> k \<le> 90 then Some (k - 55)
               else None)
      in case d of None \<Rightarrow> None | Some n \<Rightarrow> if n < radix then Some n else None)"

fun digits :: "nat \<Rightarrow> string \<Rightarrow> int option \<Rightarrow> int option" where
  "digits radix [] acc = acc"
| "digits radix (c # cs) acc =
     (case digit_of radix c of
        None \<Rightarrow> acc
      | Some n \<Rightarrow> digits radix cs
                    (Some ((case acc of None \<Rightarrow> 0 | Some a \<Rightarrow> a) * int radix + int n)))"

definition is_space :: "char \<Rightarrow> bool" where
  "is_space c = (of_char c \<in> {9, 10, 11, 12, 13, 32 :: nat})"

definition unsigned_int :: "string \<Rightarrow> int option" where
  "unsigned_int s =
     (if take 2 s = ''0x'' \<or> take 2 s = ''0X'' then digits 16 (drop 2 s) None
      else digits 10 s None)"

definition parseInt_chars :: "string \<Rightarrow> number" where
  "parseInt_chars s =
     (let t = dropWhile is_space s;
          neg = (take 1 t = ''-'');
          body = (if take 1 t = ''-'' \<or> take 1 t = ''+'' then drop 1 t else t)
      in case unsigned_int body of
           None \<Rightarrow> NaN
         | Some n \<Rightarrow> Finite (if neg then - n else n))"

definition parseInt :: "rtext \<Rightarrow> number" where
  "parseInt t =
     (case t of
        Json (JNum n) \<Rightarrow> Finite n
      | Json _ \<Rightarrow> NaN
      | Raw s \<Rightarrow> parseInt_chars s)"

text \<open>\<^verbatim>\<open>redis.set(key, n, ...)\<close> with a number: the client sends \<^verbatim>\<open>String(n)\<close>.\<close>

definition number_text :: "number \<Rightarrow> rtext" where
  "number_text n = (case n of Finite k \<Rightarrow> Json (JNum k) | NaN \<Rightarrow> Raw ''NaN'')"

definition plus_number :: "number \<Rightarrow> int \<Rightarrow> number" where
  "plus_number a b = (case a of Finite k \<Rightarrow> Finite (k + b) | NaN \<Rightarrow> NaN)"

text \<open>
  The spread \<^verbatim>\<open>...x\<close> inside an array literal: an array gives its elements, a string its
  characters, and anything else is not iterable (TypeError).
\<close>

definition spread :: "js \<Rightarrow> error + js list" where
  "spread v =
     (case v of
        JArr xs \<Rightarrow> Inr xs
      | JStr s \<Rightarrow> Inr (map (\<lambda>c. JStr [c]) s)
      | _ \<Rightarrow> Inl TypeError)"

text \<open>
  \<^verbatim>\<open>x.content\<close> and \<^verbatim>\<open>x.usage\<close>: a TypeError on \<^verbatim>\<open>null\<close> and \<^verbatim>\<open>undefined\<close>, the property of an
  object when it has one, \<^verbatim>\<open>undefined\<close> otherwise (neither name is a built-in property of
  a string, an array, a number or a boolean).
\<close>

definition get_prop :: "string \<Rightarrow> js \<Rightarrow> error + js" where
  "get_prop name v =
     (case v of
        JUndefined \<Rightarrow> Inl TypeError
      | JNull \<Rightarrow> Inl TypeError
      | JObj kvs \<Rightarrow> Inr (case map_of kvs name of None \<Rightarrow> JUndefined | Some c \<Rightarrow> c)
      | _ \<Rightarrow> Inr JUndefined)"

section \<open>The conversation store and the completion client\<close>

definition MAX_TOKENS :: int where
  "MAX_TOKENS = 120000"

definition CONVERSATION_TTL :: int where
  "CONVERSATION_TTL = 24 * 60 * 60"

definition historyKey :: "string \<Rightarrow> string" where
  "historyKey userId = ''chat_history:'' @ userId"

definition tokenCountKey :: "string \<Rightarrow> string" where
  "tokenCountKey userId = ''token_count:'' @ userId"

definition cacheKey :: "string \<Rightarrow> string" where
  "cacheKey userMessage = ''ai_response:'' @ userMessage"

definition message :: "string \<Rightarrow> string \<Rightarrow> js" where
  "message role content = JObj [(''role'', JStr role), (''content'', JStr content)]"

definition SCRIPT_SUFFIX :: string where
  "SCRIPT_SUFFIX = [CHR 0x0A, CHR 0x0A] @
     ''IMPORTANT: Keep all responses brief and concise. Aim for 2-3 sentences when possible. Only provide detailed explanations when absolutely necessary for technical support or safety-related issues.''"

text \<open>\<^verbatim>\<open>loadSupportScript\<close> (lines 69-81): the read error is logged and thrown again.\<close>

definition loadSupportScript :: "env \<Rightarrow> js io" where
  "loadSupportScript env =
     try_catch
       (bind (\<lambda>w. (readFile env (length (trace w)), emit ReadFile w)) (\<lambda>scriptContent.
          return (message ''system'' (scriptContent @ SCRIPT_SUFFIX))))
       (\<lambda>error. bind (console Error) (\<lambda>_. throw error))"

record history =
  messages :: js
  tokenCount :: number

definition empty_history :: history where
  "empty_history = \<lparr>messages = JArr [], tokenCount = Finite 0\<rparr>"

text \<open>
  \<^verbatim>\<open>getConversationHistory\<close> (lines 195-211). The \<^verbatim>\<open>try\<close> block reads both keys and only then
  parses; \<^verbatim>\<open>JSON.parse\<close> may throw inside it.
\<close>

definition getConversationHistory_try :: "env \<Rightarrow> string \<Rightarrow> history io" where
  "getConversationHistory_try env userId =
     bind (redis_get env (historyKey userId)) (\<lambda>history.
     bind (redis_get env (tokenCountKey userId)) (\<lambda>tokenCount.
     bind (case history of
             Some t \<Rightarrow> if truthy history then lift (JSON_parse t) else return (JArr [])
           | None \<Rightarrow> return (JArr [])) (\<lambda>parsed.
     return \<lparr>messages = parsed,
             tokenCount = (case tokenCount of
                             Some t \<Rightarrow> if truthy tokenCount then parseInt t else Finite 0
                           | None \<Rightarrow> Finite 0)\<rparr>)))"

definition getConversationHistory :: "env \<Rightarrow> string \<Rightarrow> history io" where
  "getConversationHistory env userId =
     try_catch (getConversationHistory_try env userId)
       (\<lambda>error. bind (console Error) (\<lambda>_. return empty_history))"

text \<open>
  \<^verbatim>\<open>updateConversationHistory\<close> (lines 214-235): read, append, add, write both keys with the
  24 hour expiry; any error is logged and thrown again.
\<close>

definition updateConversationHistory :: "env \<Rightarrow> string \<Rightarrow> js list \<Rightarrow> int \<Rightarrow> history io" where
  "updateConversationHistory env userId newMessages tokenUsage =
     try_catch
       (bind (getConversationHistory env userId) (\<lambda>h.
        bind (lift (spread (messages h))) (\<lambda>old.
        let updatedMessages = JArr (old @ newMessages);
            updatedTokenCount = plus_number (tokenCount h) tokenUsage
        in
        bind (redis_set_ex env (historyKey userId) (JSON_stringify updatedMessages)
                CONVERSATION_TTL) (\<lambda>_.
        bind (redis_set_ex env (tokenCountKey userId) (number_text updatedTokenCount)
                CONVERSATION_TTL) (\<lambda>_.
        return \<lparr>messages = updatedMessages, tokenCount = updatedTokenCount\<rparr>)))))
       (\<lambda>error. bind (console Error) (\<lambda>_. throw error))"

definition usage_js :: "usage \<Rightarrow> js" where
  "usage_js u =
     JObj [(''prompt_tokens'', JNum (prompt_tokens u)),
           (''completion_tokens'', JNum (completion_tokens u)),
           (''total_tokens'', JNum (total_tokens u))]"

definition responseData :: "completion \<Rightarrow> js" where
  "responseData c =
     JObj [(''content'', JStr (choice_content c)), (''usage'', usage_js (completion_usage c))]"

definition APOLOGY :: string where
  "APOLOGY = ''I apologize, but I'm having trouble accessing our support system right now. Please try again in a few moments.''"

definition fallback :: js where
  "fallback = JObj [(''content'', JStr APOLOGY), (''usage'', JObj [(''total_tokens'', JNum 0)])]"

text \<open>
  Lines 243-251: the cache lookup. \<open>Some parsed\<close> is the early \<^verbatim>\<open>return parsed\<close>; \<open>None\<close>
  falls through to the completion, after a warning when the text did not parse.
\<close>

definition cachedReply :: "rtext option \<Rightarrow> js option io" where
  "cachedReply cachedResponse =
     (case cachedResponse of
        None \<Rightarrow> return None
      | Some t \<Rightarrow>
          if truthy cachedResponse then
            (case JSON_parse t of
               Inr parsed \<Rightarrow> return (Some parsed)
             | Inl parseError \<Rightarrow> bind (console Warn) (\<lambda>_. return None))
          else return None)"

text \<open>Lines 260-267: the persona, then the whole stored history, then the new message.\<close>

definition messageArray :: "js \<Rightarrow> js list \<Rightarrow> string \<Rightarrow> js list" where
  "messageArray supportScript historyMessages userMessage =
     supportScript # historyMessages @ [message ''user'' userMessage]"

definition openai_chat_completions_create :: "env \<Rightarrow> js list \<Rightarrow> completion io" where
  "openai_chat_completions_create env prompt w =
     (openai_create env (length (trace w)) prompt, emit (Completion prompt) w)"

text \<open>
  Lines 253-296, the path after a cache miss. \<^verbatim>\<open>Promise.all\<close> runs the history read and the
  persona load together; the history read cannot reject, so the pair fails exactly when
  the persona load does, and the two are written here one after the other.
\<close>

definition completeAndStore :: "env \<Rightarrow> string \<Rightarrow> string \<Rightarrow> js io" where
  "completeAndStore env userMessage userId =
     bind (getConversationHistory env userId) (\<lambda>h.
     bind (loadSupportScript env) (\<lambda>supportScript.
     bind (lift (spread (messages h))) (\<lambda>historyMessages.
     bind (openai_chat_completions_create env
             (messageArray supportScript historyMessages userMessage)) (\<lambda>completion.
     let response = choice_content completion;
         newMessages = [message ''user'' userMessage, message ''assistant'' response]
     in
     bind (updateConversationHistory env userId newMessages
             (total_tokens (completion_usage completion))) (\<lambda>_.
     bind (redis_set_ex env (cacheKey userMessage) (JSON_stringify (responseData completion))
             3600) (\<lambda>_.
     return (responseData completion)))))))"

text \<open>The \<^verbatim>\<open>try\<close> block of \<^verbatim>\<open>getAIResponse\<close> (lines 241-296).\<close>

definition getAIResponse_try :: "env \<Rightarrow> string \<Rightarrow> string \<Rightarrow> js io" where
  "getAIResponse_try env userMessage userId =
     bind (redis_get env (cacheKey userMessage)) (\<lambda>cachedResponse.
     bind (cachedReply cachedResponse) (\<lambda>hit.
     case hit of
       Some parsed \<Rightarrow> return parsed
     | None \<Rightarrow> completeAndStore env userMessage userId))"

text \<open>\<^verbatim>\<open>getAIResponse\<close> (lines 238-304): whatever the \<^verbatim>\<open>try\<close> block throws is logged and
  replaced by the fixed apology.\<close>

definition getAIResponse :: "env \<Rightarrow> string \<Rightarrow> string \<Rightarrow> js io" where
  "getAIResponse env userMessage userId =
     try_catch (getAIResponse_try env userMessage userId)
       (\<lambda>error. bind (console Error) (\<lambda>_. return fallback))"

section \<open>The delivery client\<close>

definition MESSAGE_WINDOW_MS :: int where
  "MESSAGE_WINDOW_MS = 1000"

definition MAX_MESSAGES_PER_WINDOW :: int where
  "MAX_MESSAGES_PER_WINDOW = 30"

text \<open>
  Lines 87-99, the send limiter. It runs without an \<^verbatim>\<open>await\<close>, so no other handler runs in
  between. The window is reset when it has elapsed; then either the budget is exhausted
  and the caller has to sleep \<open>delayMs\<close> and start over (\<open>Some delayMs\<close>), or the send is
  counted and goes ahead (\<open>None\<close>).
\<close>

definition resetWindow :: "world \<Rightarrow> world" where
  "resetWindow w =
     (if now w - windowStart w > MESSAGE_WINDOW_MS
      then w\<lparr>messagesSentInWindow := 0, windowStart := now w\<rparr>
      else w)"

definition rateLimitCheck :: "world \<Rightarrow> int option \<times> world" where
  "rateLimitCheck w =
     (let w1 = resetWindow w in
      if messagesSentInWindow w1 \<ge> MAX_MESSAGES_PER_WINDOW
      then (Some (MESSAGE_WINDOW_MS - (now w - windowStart w1)), w1)
      else (None, w1\<lparr>messagesSentInWindow := messagesSentInWindow w1 + 1\<rparr>))"

definition lastMessageKey :: "string \<Rightarrow> string" where
  "lastMessageKey to = ''last_message:'' @ to"

text \<open>\<^verbatim>\<open>redis.set(`last_message:${to}`, message)\<close>: a plain SET, which drops any expiry.\<close>

definition redis_set_last_message :: "env \<Rightarrow> string \<Rightarrow> js \<Rightarrow> unit io" where
  "redis_set_last_message env to msg w =
     (if redis_fails env (length (trace w)) (SET (lastMessageKey to))
      then (Inl RedisError, emit (Redis (SET (lastMessageKey to))) w)
      else (Inr (),
            emit (Redis (SET (lastMessageKey to)))
              (w\<lparr>last_message := (last_message w)(to \<mapsto> (msg, None))\<rparr>)))"

text \<open>\<^verbatim>\<open>redis.expire(`last_message:${to}`, seconds)\<close>\<close>

definition redis_expire_last_message :: "env \<Rightarrow> string \<Rightarrow> int \<Rightarrow> unit io" where
  "redis_expire_last_message env to seconds w =
     (if redis_fails env (length (trace w)) (EXPIRE (lastMessageKey to))
      then (Inl RedisError, emit (Redis (EXPIRE (lastMessageKey to))) w)
      else (Inr (),
            emit (Redis (EXPIRE (lastMessageKey to)))
              (case last_message w to of
                 None \<Rightarrow> w
               | Some (msg, _) \<Rightarrow>
                   w\<lparr>last_message :=
                       (last_message w)(to \<mapsto> (msg, Some (now w + seconds * 1000)))\<rparr>)))"

definition axios_post_message :: "env \<Rightarrow> string \<Rightarrow> js \<Rightarrow> js io" where
  "axios_post_message env to msg w =
     (axios_post env (length (trace w)) to msg, emit (Post to msg) w)"

text \<open>Lines 101-124: one HTTP post, then the record of the last message sent.\<close>

definition deliver :: "env \<Rightarrow> string \<Rightarrow> js \<Rightarrow> js io" where
  "deliver env to msg =
     bind (axios_post_message env to msg) (\<lambda>response_data.
     bind (redis_set_last_message env to msg) (\<lambda>_.
     bind (redis_expire_last_message env to 3600) (\<lambda>_.
     bind (console Log) (\<lambda>_.
     return response_data))))"

text \<open>\<^verbatim>\<open>error.response?.data?.error?.code === 131030\<close> and \<^verbatim>\<open>error.response?.status >= 500\<close>\<close>

definition recipientNotAllowed :: "error \<Rightarrow> bool" where
  "recipientNotAllowed e =
     (case e of AxiosError (Some r) \<Rightarrow> data_error_code r = Some 131030 | _ \<Rightarrow> False)"

definition serverError :: "error \<Rightarrow> bool" where
  "serverError e = (case e of AxiosError (Some r) \<Rightarrow> status r \<ge> 500 | _ \<Rightarrow> False)"

text \<open>What the termination of the limiter's loop rests on: a timer lets at least one
  millisecond pass, and a caller is only made to wait inside the current window.\<close>

lemma timer_delay_pos: "1 \<le> timer_delay d"
  by (simp add: timer_delay_def)

lemma rateLimitCheck_wait:
  assumes "rateLimitCheck w = (Some delayMs, w1)"
  shows "w1 = w \<and> now w - windowStart w \<le> MESSAGE_WINDOW_MS
         \<and> delayMs = MESSAGE_WINDOW_MS - (now w - windowStart w)
         \<and> MAX_MESSAGES_PER_WINDOW \<le> messagesSentInWindow w"
  using assms
  by (auto simp: rateLimitCheck_def resetWindow_def Let_def MAX_MESSAGES_PER_WINDOW_def
           split: if_splits)

text \<open>
  \<^verbatim>\<open>sendWhatsAppMessage\<close> (lines 84-141). The call after the limiter's sleep is returned
  without \<^verbatim>\<open>await\<close>, so its rejection is not caught by this call's \<^verbatim>\<open>catch\<close>: it is a tail
  call with the same \<open>retryCount\<close>.
\<close>

function sendWhatsAppMessage ::
  "env \<Rightarrow> string \<Rightarrow> js \<Rightarrow> nat \<Rightarrow> world \<Rightarrow> (error + js) \<times> world" where
  "sendWhatsAppMessage env to msg retryCount w =
     (case rateLimitCheck w of
        (Some delayMs, w1) \<Rightarrow> sendWhatsAppMessage env to msg retryCount (setTimeout delayMs w1)
      | (None, w1) \<Rightarrow>
          (case deliver env to msg w1 of
             (Inr response_data, w2) \<Rightarrow> (Inr response_data, w2)
           | (Inl error, w2) \<Rightarrow>
               if recipientNotAllowed error
               then (Inl (NotAuthorized to), emit (Console Error) w2)
               else if retryCount < 3 \<and> serverError error
               then sendWhatsAppMessage env to msg (retryCount + 1)
                      (setTimeout (2 ^ retryCount * 1000) (emit (Console Error) w2))
               else (Inl error, emit (Console Error) w2)))"
  by pat_completeness auto
termination sendWhatsAppMessage
proof (relation "(\<lambda>(env, to, msg, retryCount, w). 3 - retryCount) <*mlex*>
                 measure (\<lambda>(env, to, msg, retryCount, w).
                            nat (windowStart w + MESSAGE_WINDOW_MS + 1 - now w))",
       goal_cases)
  case 1
  show ?case by (simp add: wf_mlex)
next
  case 2
  then show ?case by (auto intro!: mlex_less)
next
  case (3 env to msg retryCount w x y delayMs)
  then have "rateLimitCheck w = (Some delayMs, y)" by simp
  from rateLimitCheck_wait [OF this] timer_delay_pos [of delayMs]
  show ?case
    by (auto intro!: mlex_leq simp: setTimeout_def emit_def)
qed

declare sendWhatsAppMessage.simps [simp del]

section \<open>The job handlers and the clear endpoint\<close>


text \<open>
  The \<^verbatim>\<open>process_message\<close> processor (lines 307-333): \<^verbatim>\<open>job.data = {from, messageText}\<close>. A
  returned value completes the job; a thrown error fails it and leaves the retry to the
  queue.
\<close>

definition process_message :: "env \<Rightarrow> string \<Rightarrow> string \<Rightarrow> js io" where
  "process_message env from messageText =
     try_catch
       (bind (console Log) (\<lambda>_.
        bind (getAIResponse env messageText from) (\<lambda>aiResponse.
        bind (console Log) (\<lambda>_.
        bind (lift (get_prop ''content'' aiResponse)) (\<lambda>content.
        bind (sendWhatsAppMessage env from content 0) (\<lambda>_.
        bind (console Log) (\<lambda>_.
        bind (lift (get_prop ''usage'' aiResponse)) (\<lambda>tokenUsage.
        bind (console Log) (\<lambda>_.
        return (JObj [(''success'', JBool True), (''from'', JStr from),
                      (''messageText'', JStr messageText), (''aiResponse'', content),
                      (''tokenUsage'', tokenUsage)]))))))))))
       (\<lambda>error. bind (console Error) (\<lambda>_. throw error))"

text \<open>
  \<^verbatim>\<open>POST /dev/clear-redis\<close> (lines 410-417): the handler is registered whatever the
  environment says; the result is the HTTP status of the answer.
\<close>

definition dev_clear_redis :: "env \<Rightarrow> int io" where
  "dev_clear_redis env =
     try_catch (bind (redis_flushall env) (\<lambda>_. return 200)) (\<lambda>error. return 500)"

section \<open>Reading a trace\<close>

text \<open>The HTTP posts of a trace, as (recipient, body) in order, and the delays of its
  timers.\<close>

fun posts :: "event list \<Rightarrow> (string \<times> js) list" where
  "posts [] = []"
| "posts (Post to msg # es) = (to, msg) # posts es"
| "posts (e # es) = posts es"

fun sleeps :: "event list \<Rightarrow> int list" where
  "sleeps [] = []"
| "sleeps (Sleep d # es) = d # sleeps es"
| "sleeps (e # es) = sleeps es"

text \<open>
  The clock values at which the posts of a stretch of trace happen, when the stretch starts
  at time \<open>t\<close>: only timers let time pass.
\<close>

fun post_times :: "int \<Rightarrow> event list \<Rightarrow> int list" where
  "post_times t [] = []"
| "post_times t (Sleep d # es) = post_times (t + timer_delay d) es"
| "post_times t (Post to msg # es) = t # post_times t es"
| "post_times t (e # es) = post_times t es"

text \<open>
  Any number of callers, interleaved in any way: the limiter check is run at the clock
  values \<open>ts\<close>, one after the other, by whoever comes. \<open>granted w ts\<close> are the clock values
  at which a send was let through.
\<close>

fun granted :: "world \<Rightarrow> int list \<Rightarrow> int list" where
  "granted w [] = []"
| "granted w (t # ts) =
     (case rateLimitCheck (w\<lparr>now := t\<rparr>) of
        (None, w') \<Rightarrow> t # granted w' ts
      | (Some delayMs, w') \<Rightarrow> granted w' ts)"

section \<open>What the store holds for a user\<close>

text \<open>
  The value \<^verbatim>\<open>getConversationHistory\<close> computes from the two keys of a user when both reads
  succeed: the parsed messages and the parsed count, the empty history when the stored
  messages do not parse.
\<close>

definition storedHistory :: "world \<Rightarrow> string \<Rightarrow> history" where
  "storedHistory w userId =
     (case (case lookup w (historyKey userId) of
              Some t \<Rightarrow> if t \<noteq> Raw [] then JSON_parse t else Inr (JArr [])
            | None \<Rightarrow> Inr (JArr [])) of
        Inl e \<Rightarrow> empty_history
      | Inr parsed \<Rightarrow>
          \<lparr>messages = parsed,
           tokenCount = (case lookup w (tokenCountKey userId) of
                           Some t \<Rightarrow> if t \<noteq> Raw [] then parseInt t else Finite 0
                         | None \<Rightarrow> Finite 0)\<rparr>)"


section \<open>Sequences of turns\<close>



section \<open>Concrete environments and worlds\<close>

text \<open>A world in which nothing has happened yet, with the clock at \<open>t\<close>.\<close>

definition fresh :: "int \<Rightarrow> world" where
  "fresh t = \<lparr>now = t, messagesSentInWindow = 0, windowStart = t, redis = Map.empty,
              last_message = Map.empty, trace = []\<rparr>"

definition usage42 :: usage where
  "usage42 = \<lparr>prompt_tokens = 30, completion_tokens = 12, total_tokens = 42\<rparr>"

definition reply42 :: completion where
  "reply42 = \<lparr>choice_content = ''<reply>'', completion_usage = usage42\<rparr>"

text \<open>Everything outside works: the persona file reads, the backend answers \<open>reply42\<close>, the
  WhatsApp API acknowledges.\<close>

definition env_up :: env where
  "env_up = \<lparr>redis_fails = (\<lambda>i c. False), readFile = (\<lambda>i. Inr ''persona''),
             openai_create = (\<lambda>i p. Inr reply42), axios_post = (\<lambda>i to msg. Inr (JObj [])),
             process_env = Map.empty\<rparr>"

text \<open>As \<open>env_up\<close>, but every read of the history key of user \<open>27821234567\<close> throws.\<close>

definition env_history_unreadable :: env where
  "env_history_unreadable =
     env_up\<lparr>redis_fails := (\<lambda>i c. c = GET (historyKey ''27821234567''))\<rparr>"


text \<open>As \<open>env_up\<close>, but every write of the history key of user \<open>27821234567\<close> throws.\<close>

definition env_history_unwritable :: env where
  "env_history_unwritable =
     env_up\<lparr>redis_fails := (\<lambda>i c. c = SET (historyKey ''27821234567''))\<rparr>"

text \<open>As \<open>env_up\<close>, in a process started with \<^verbatim>\<open>NODE_ENV=production\<close>.\<close>

definition env_production :: env where
  "env_production = env_up\<lparr>process_env := [''NODE_ENV'' \<mapsto> ''production'']\<rparr>"

text \<open>A world at time 0 in which a conversation of \<open>userId\<close> is stored: the messages and the
  token count, both expiring after 24 hours.\<close>

definition stored :: "string \<Rightarrow> js list \<Rightarrow> int \<Rightarrow> world" where
  "stored userId msgs n =
     (fresh 0)\<lparr>redis :=
       [historyKey userId \<mapsto> \<lparr>text_of = Json (JArr msgs), deadline = Some 86400000\<rparr>,
        tokenCountKey userId \<mapsto> \<lparr>text_of = Json (JNum n), deadline = Some 86400000\<rparr>]\<rparr>"


text \<open>The state after 30 sends at time 0: the budget of the window that started at 0 is
  used up.\<close>

definition exhausted :: world where
  "exhausted = (fresh 0)\<lparr>messagesSentInWindow := 30\<rparr>"

text \<open>A world at time 0 whose only key is the cache entry of \<open>userMessage\<close>, holding the
  text \<open>t\<close> with no expiry.\<close>

definition cached :: "string \<Rightarrow> rtext \<Rightarrow> world" where
  "cached userMessage t =
     (fresh 0)\<lparr>redis := [cacheKey userMessage \<mapsto> \<lparr>text_of = t, deadline = None\<rparr>]\<rparr>"

section \<open>Basic facts\<close>

lemmas io_defs = bind_def return_def throw_def try_catch_def lift_def console_def

lemmas run_defs = getAIResponse_def getAIResponse_try_def cachedReply_def completeAndStore_def
  getConversationHistory_def getConversationHistory_try_def loadSupportScript_def
  updateConversationHistory_def openai_chat_completions_create_def
  redis_get_def redis_set_ex_def io_defs empty_history_def spread_def Let_def
  plus_number_def number_text_def JSON_stringify_def JSON_parse_def truthy_def parseInt_def

lemmas send_defs = rateLimitCheck_def resetWindow_def deliver_def axios_post_message_def
  redis_set_last_message_def redis_expire_last_message_def recipientNotAllowed_def
  serverError_def MAX_MESSAGES_PER_WINDOW_def MESSAGE_WINDOW_MS_def setTimeout_def
  timer_delay_def lastMessageKey_def

lemmas concrete_defs = fresh_def env_up_def reply42_def usage42_def historyKey_def
  tokenCountKey_def cacheKey_def lookup_def live_def emit_def get_prop_def fallback_def

lemma emit_fields [simp]:
  "trace (emit e w) = trace w @ [e]"
  "now (emit e w) = now w"
  "redis (emit e w) = redis w"
  "last_message (emit e w) = last_message w"
  "messagesSentInWindow (emit e w) = messagesSentInWindow w"
  "windowStart (emit e w) = windowStart w"
  by (simp_all add: emit_def)

lemma lookup_emit [simp]: "lookup (emit e w) k = lookup w k"
  by (simp add: lookup_def split: option.splits)

lemma keys_distinct [simp]:
  "historyKey u \<noteq> tokenCountKey u'" "tokenCountKey u' \<noteq> historyKey u"
  "historyKey u \<noteq> cacheKey t" "cacheKey t \<noteq> historyKey u"
  "tokenCountKey u \<noteq> cacheKey t" "cacheKey t \<noteq> tokenCountKey u"
  by (simp_all add: historyKey_def tokenCountKey_def cacheKey_def)

lemma keys_inj [simp]:
  "historyKey u = historyKey u' \<longleftrightarrow> u = u'"
  "tokenCountKey u = tokenCountKey u' \<longleftrightarrow> u = u'"
  "cacheKey t = cacheKey t' \<longleftrightarrow> t = t'"
  by (simp_all add: historyKey_def tokenCountKey_def cacheKey_def)

lemma lookup_fresh [simp]: "lookup (fresh t) k = None"
  by (simp add: lookup_def fresh_def)

section \<open>Reading the history never fails\<close>

lemma getConversationHistory_returns:
  "\<exists>h w'. getConversationHistory env userId w = (Inr h, w')"
  by (simp add: getConversationHistory_def io_defs split: prod.splits sum.splits)

lemma getConversationHistory_absent:
  assumes "lookup w (historyKey userId) = None" "lookup w (tokenCountKey userId) = None"
  shows "fst (getConversationHistory env userId w) = Inr empty_history"
  using assms
  by (simp add: getConversationHistory_def getConversationHistory_try_def redis_get_def
        io_defs empty_history_def split: prod.splits sum.splits)

lemma getConversationHistory_read_throws:
  assumes "redis_fails env (length (trace w)) (GET (historyKey userId))
           \<or> redis_fails env (Suc (length (trace w))) (GET (tokenCountKey userId))"
  shows "fst (getConversationHistory env userId w) = Inr empty_history"
  using assms
  by (auto simp add: getConversationHistory_def getConversationHistory_try_def redis_get_def
        io_defs empty_history_def split: prod.splits sum.splits)

lemma turn_with_unreadable_history:
  assumes "\<forall>i c. redis_fails env i c \<longleftrightarrow> c = GET (historyKey userId)"
      and "\<forall>i. readFile env i = Inr script"
      and "\<forall>i p. openai_create env i p = Inr c"
      and "lookup w (cacheKey userMessage) = None"
  shows "fst (getAIResponse env userMessage userId w) = Inr (responseData c) \<and>
         Completion (messageArray (message ''system'' (script @ SCRIPT_SUFFIX)) [] userMessage)
           \<in> set (trace (snd (getAIResponse env userMessage userId w)))"
  using assms
  by (simp add: getAIResponse_def getAIResponse_try_def cachedReply_def completeAndStore_def
      getConversationHistory_def getConversationHistory_try_def loadSupportScript_def
      updateConversationHistory_def openai_chat_completions_create_def
      redis_get_def redis_set_ex_def io_defs empty_history_def spread_def Let_def
      plus_number_def number_text_def JSON_stringify_def)

text \<open>
  Claim C9. \<^verbatim>\<open>getConversationHistory\<close> returns for every user, environment and state. When
  neither key is stored it returns empty messages and a token count of zero; when the read
  of either key throws it returns the same default. A turn in which every read of the
  history key throws (and nothing else fails) is therefore answered by the backend from a
  prompt without history: persona, then the new message.
\<close>

theorem getConversationHistory_never_fails:
  "(\<exists>h w'. getConversationHistory env userId w = (Inr h, w')) \<and>
   (lookup w (historyKey userId) = None \<and> lookup w (tokenCountKey userId) = None \<longrightarrow>
      fst (getConversationHistory env userId w) = Inr empty_history) \<and>
   (redis_fails env (length (trace w)) (GET (historyKey userId))
      \<or> redis_fails env (Suc (length (trace w))) (GET (tokenCountKey userId)) \<longrightarrow>
      fst (getConversationHistory env userId w) = Inr empty_history) \<and>
   ((\<forall>i c. redis_fails env i c \<longleftrightarrow> c = GET (historyKey userId)) \<and>
    (\<forall>i. readFile env i = Inr script) \<and>
    (\<forall>i p. openai_create env i p = Inr c) \<and>
    lookup w (cacheKey userMessage) = None \<longrightarrow>
      fst (getAIResponse env userMessage userId w) = Inr (responseData c) \<and>
      Completion (messageArray (message ''system'' (script @ SCRIPT_SUFFIX)) [] userMessage)
        \<in> set (trace (snd (getAIResponse env userMessage userId w))))"
proof (intro conjI impI)
  show "\<exists>h w'. getConversationHistory env userId w = (Inr h, w')"
    by (rule getConversationHistory_returns)
next
  assume "lookup w (historyKey userId) = None \<and> lookup w (tokenCountKey userId) = None"
  then show "fst (getConversationHistory env userId w) = Inr empty_history"
    by (simp add: getConversationHistory_absent)
next
  assume "redis_fails env (length (trace w)) (GET (historyKey userId))
          \<or> redis_fails env (Suc (length (trace w))) (GET (tokenCountKey userId))"
  then show "fst (getConversationHistory env userId w) = Inr empty_history"
    by (rule getConversationHistory_read_throws)
next
  assume h: "(\<forall>i c. redis_fails env i c \<longleftrightarrow> c = GET (historyKey userId)) \<and>
    (\<forall>i. readFile env i = Inr script) \<and>
    (\<forall>i p. openai_create env i p = Inr c) \<and>
    lookup w (cacheKey userMessage) = None"
  from h turn_with_unreadable_history [of env userId script c w userMessage]
  show "fst (getAIResponse env userMessage userId w) = Inr (responseData c)"
    by blast
  from h turn_with_unreadable_history [of env userId script c w userMessage]
  show "Completion (messageArray (message ''system'' (script @ SCRIPT_SUFFIX)) [] userMessage)
        \<in> set (trace (snd (getAIResponse env userMessage userId w)))"
    by blast
qed

theorem getConversationHistory_never_fails_witness:
  "lookup (fresh 0) (historyKey ''27821234567'') = None \<and>
   lookup (fresh 0) (tokenCountKey ''27821234567'') = None \<and>
   redis_fails env_history_unreadable (length (trace (fresh 0)))
     (GET (historyKey ''27821234567'')) \<and>
   (\<forall>i c. redis_fails env_history_unreadable i c \<longleftrightarrow> c = GET (historyKey ''27821234567'')) \<and>
   (\<forall>i. readFile env_history_unreadable i = Inr ''persona'') \<and>
   (\<forall>i p. openai_create env_history_unreadable i p = Inr reply42) \<and>
   lookup (fresh 0) (cacheKey ''hello'') = None \<and>
   (\<exists>h w'. getConversationHistory env_history_unreadable ''27821234567'' (fresh 0)
             = (Inr h, w')) \<and>
   fst (getConversationHistory env_history_unreadable ''27821234567'' (fresh 0))
     = Inr empty_history \<and>
   fst (getAIResponse env_history_unreadable ''hello'' ''27821234567'' (fresh 0))
     = Inr (responseData reply42) \<and>
   Completion (messageArray (message ''system'' (''persona'' @ SCRIPT_SUFFIX)) [] ''hello'')
     \<in> set (trace (snd (getAIResponse env_history_unreadable ''hello'' ''27821234567''
                          (fresh 0))))"
proof -
  have e: "(\<forall>i c. redis_fails env_history_unreadable i c
                   \<longleftrightarrow> c = GET (historyKey ''27821234567'')) \<and>
           (\<forall>i. readFile env_history_unreadable i = Inr ''persona'') \<and>
           (\<forall>i p. openai_create env_history_unreadable i p = Inr reply42)"
    by (simp add: env_history_unreadable_def env_up_def)
  from e getConversationHistory_never_fails
         [of env_history_unreadable "''27821234567''" "fresh 0" "''persona''" reply42 "''hello''"]
  show ?thesis
    by simp
qed

section \<open>The completion client absorbs every error\<close>

lemma getAIResponse_catches:
  "getAIResponse env t u w =
     (case getAIResponse_try env t u w of
        (Inl e, w1) \<Rightarrow> (Inr fallback, emit (Console Error) w1)
      | (Inr r, w1) \<Rightarrow> (Inr r, w1))"
  by (simp add: getAIResponse_def io_defs split: prod.splits sum.splits)

lemma not_Inr_Inl:
  fixes m :: "'a io"
  assumes "\<And>x w'. m w \<noteq> (Inr x, w')"
  shows "\<exists>e w'. m w = (Inl e, w')"
  using assms by (cases "m w"; cases "fst (m w)") auto

lemma loadSupportScript_not_Inr:
  assumes "\<forall>i. \<exists>e. readFile env i = Inl e"
  shows "loadSupportScript env w \<noteq> (Inr x, w')"
proof -
  from assms obtain e where "readFile env (length (trace w)) = Inl e" by blast
  then show ?thesis
    by (simp add: loadSupportScript_def io_defs)
qed

lemma openai_not_Inr:
  assumes "\<forall>i p. \<exists>e. openai_create env i p = Inl e"
  shows "openai_chat_completions_create env p w \<noteq> (Inr x, w')"
proof -
  from assms obtain e where "openai_create env (length (trace w)) p = Inl e" by blast
  then show ?thesis
    by (simp add: openai_chat_completions_create_def)
qed

lemma updateConversationHistory_not_Inr:
  assumes "(\<forall>i. redis_fails env i (SET (historyKey u)))
           \<or> (\<forall>i. redis_fails env i (SET (tokenCountKey u)))"
  shows "updateConversationHistory env u new n w \<noteq> (Inr x, w')"
  using assms
  by (auto simp: updateConversationHistory_def io_defs redis_set_ex_def Let_def
           split: prod.splits sum.splits)

lemma completeAndStore_not_Inr:
  assumes "(\<forall>i. \<exists>e. readFile env i = Inl e)
           \<or> (\<forall>i p. \<exists>e. openai_create env i p = Inl e)
           \<or> (\<forall>i. redis_fails env i (SET (historyKey u)))
           \<or> (\<forall>i. redis_fails env i (SET (tokenCountKey u)))"
  shows "completeAndStore env t u w \<noteq> (Inr x, w')"
  using assms
  by (auto simp: completeAndStore_def bind_def Let_def loadSupportScript_not_Inr
        openai_not_Inr updateConversationHistory_not_Inr
           split: prod.splits sum.splits)

lemma completeAndStore_Inr:
  assumes "completeAndStore env t u w = (Inr r, w')"
  shows "\<exists>i p c. openai_create env i p = Inr c \<and> r = responseData c"
  using assms
  by (auto simp: completeAndStore_def bind_def return_def Let_def
       openai_chat_completions_create_def
           split: prod.splits sum.splits)

lemma cachedReply_cases:
  "cachedReply x w = (Inr (case x of Some (Json v) \<Rightarrow> Some v | _ \<Rightarrow> None),
                      if (\<exists>s. x = Some (Raw s) \<and> s \<noteq> []) then emit (Console Warn) w else w)"
  by (auto simp: cachedReply_def truthy_def JSON_parse_def io_defs
        split: option.splits rtext.splits)

lemma getAIResponse_try_miss_not_Inr:
  assumes "\<forall>v. lookup w (cacheKey t) \<noteq> Some (Json v)"
   and "(\<forall>i. \<exists>e. readFile env i = Inl e)
           \<or> (\<forall>i p. \<exists>e. openai_create env i p = Inl e)
           \<or> (\<forall>i. redis_fails env i (SET (historyKey u)))
           \<or> (\<forall>i. redis_fails env i (SET (tokenCountKey u)))"
  shows "getAIResponse_try env t u w \<noteq> (Inr x, w')"
  using assms(1) completeAndStore_not_Inr [OF assms(2)]
  by (auto simp: getAIResponse_try_def bind_def return_def redis_get_def cachedReply_cases
      split: option.splits rtext.splits)

lemma getAIResponse_try_Inr:
  assumes "getAIResponse_try env t u w = (Inr r, w')"
  shows "(\<exists>i p c. openai_create env i p = Inr c \<and> r = responseData c)
         \<or> lookup w (cacheKey t) = Some (Json r)"
  using assms completeAndStore_Inr [of env t u _ r w']
  by (auto simp: getAIResponse_try_def bind_def return_def redis_get_def cachedReply_cases
      split: option.splits rtext.splits if_splits)




section \<open>A failed state update does not fail the job\<close>

lemma process_message_after_fallback:
  assumes "getAIResponse env messageText from (emit (Console Log) w) = (Inr fallback, w1)"
  shows "process_message env from messageText w =
     (case sendWhatsAppMessage env from (JStr APOLOGY) 0 (emit (Console Log) w1) of
        (Inl e, w2) \<Rightarrow> (Inl e, emit (Console Error) w2)
      | (Inr d, w2) \<Rightarrow>
          (Inr (JObj [(''success'', JBool True), (''from'', JStr from),
                      (''messageText'', JStr messageText), (''aiResponse'', JStr APOLOGY),
                      (''tokenUsage'', JObj [(''total_tokens'', JNum 0)])]),
           emit (Console Log) (emit (Console Log) w2)))"
  using assms
  by (simp add: process_message_def io_defs fallback_def get_prop_def
           split: prod.splits sum.splits)

text \<open>
  Claim C2, as the code has it. When every write of the history key (or of the token count
  key) fails, \<^verbatim>\<open>updateConversationHistory\<close> throws; on a turn that is not answered from the
  cache \<^verbatim>\<open>getAIResponse\<close> catches that error and returns the apology, and the job handler
  goes on to send the apology: the job's outcome is the outcome of that delivery, and no
  error of the state update reaches the handler.
\<close>

theorem store_write_failure_absorbed:
  assumes "(\<forall>i. redis_fails env i (SET (historyKey from)))
           \<or> (\<forall>i. redis_fails env i (SET (tokenCountKey from)))"
      and "\<forall>v. lookup w (cacheKey messageText) \<noteq> Some (Json v)"
  shows "(\<exists>e w'. updateConversationHistory env from newMessages tokenUsage w0 = (Inl e, w')) \<and>
         (\<exists>w1. getAIResponse env messageText from (emit (Console Log) w) = (Inr fallback, w1) \<and>
            process_message env from messageText w =
              (case sendWhatsAppMessage env from (JStr APOLOGY) 0 (emit (Console Log) w1) of
                 (Inl e, w2) \<Rightarrow> (Inl e, emit (Console Error) w2)
               | (Inr d, w2) \<Rightarrow>
                   (Inr (JObj [(''success'', JBool True), (''from'', JStr from),
                               (''messageText'', JStr messageText),
                               (''aiResponse'', JStr APOLOGY),
                               (''tokenUsage'', JObj [(''total_tokens'', JNum 0)])]),
                    emit (Console Log) (emit (Console Log) w2))))"
proof
  show "\<exists>e w'. updateConversationHistory env from newMessages tokenUsage w0 = (Inl e, w')"
    by (intro not_Inr_Inl updateConversationHistory_not_Inr assms(1))
next
  have miss: "\<forall>v. lookup (emit (Console Log) w) (cacheKey messageText) \<noteq> Some (Json v)"
    using assms(2) by simp
  have "\<exists>e w'. getAIResponse_try env messageText from (emit (Console Log) w) = (Inl e, w')"
    using assms(1) by (intro not_Inr_Inl getAIResponse_try_miss_not_Inr miss) blast
  then obtain w1 where
    g: "getAIResponse env messageText from (emit (Console Log) w) = (Inr fallback, w1)"
    by (auto simp: getAIResponse_catches)
  from g process_message_after_fallback [OF g]
  show "\<exists>w1. getAIResponse env messageText from (emit (Console Log) w) = (Inr fallback, w1) \<and>
            process_message env from messageText w =
              (case sendWhatsAppMessage env from (JStr APOLOGY) 0 (emit (Console Log) w1) of
                 (Inl e, w2) \<Rightarrow> (Inl e, emit (Console Error) w2)
               | (Inr d, w2) \<Rightarrow>
                   (Inr (JObj [(''success'', JBool True), (''from'', JStr from),
                               (''messageText'', JStr messageText),
                               (''aiResponse'', JStr APOLOGY),
                               (''tokenUsage'', JObj [(''total_tokens'', JNum 0)])]),
                    emit (Console Log) (emit (Console Log) w2)))"
    by blast
qed

theorem store_write_failure_absorbed_witness:
  "(\<forall>i. redis_fails env_history_unwritable i (SET (historyKey ''27821234567''))) \<and>
   (\<forall>v. lookup (fresh 0) (cacheKey ''hello'') \<noteq> Some (Json v)) \<and>
   (\<exists>e w'. updateConversationHistory env_history_unwritable ''27821234567''
              [message ''user'' ''hello'', message ''assistant'' ''<reply>''] 42 (fresh 0)
            = (Inl e, w')) \<and>
   (\<exists>w1. getAIResponse env_history_unwritable ''hello'' ''27821234567''
            (emit (Console Log) (fresh 0)) = (Inr fallback, w1))"
proof -
  have f: "\<forall>i. redis_fails env_history_unwritable i (SET (historyKey ''27821234567''))"
    by (simp add: env_history_unwritable_def)
  have m: "\<forall>v. lookup (fresh 0) (cacheKey ''hello'') \<noteq> Some (Json v)"
    by simp
  from f m store_write_failure_absorbed
             [of env_history_unwritable "''27821234567''" "fresh 0" "''hello''"
                 "[message ''user'' ''hello'', message ''assistant'' ''<reply>'']" 42 "fresh 0"]
  show ?thesis
    by blast
qed

text \<open>
  The claim as stated fails: with the history key unwritable, the first message of a user
  is answered with the apology, the apology is posted, and the job completes.
\<close>

theorem store_write_failure_counterexample:
  "redis_fails env_history_unwritable 8 (SET (historyKey ''27821234567'')) \<and>
   fst (updateConversationHistory env_history_unwritable ''27821234567''
          [message ''user'' ''hello'', message ''assistant'' ''<reply>''] 42 (fresh 0))
     = Inl RedisError \<and>
   fst (getAIResponse env_history_unwritable ''hello'' ''27821234567'' (fresh 0))
     = Inr fallback \<and>
   fst (process_message env_history_unwritable ''27821234567'' ''hello'' (fresh 0))
     = Inr (JObj [(''success'', JBool True), (''from'', JStr ''27821234567''),
                  (''messageText'', JStr ''hello''), (''aiResponse'', JStr APOLOGY),
                  (''tokenUsage'', JObj [(''total_tokens'', JNum 0)])]) \<and>
   Post ''27821234567'' (JStr APOLOGY)
     \<in> set (trace (snd (process_message env_history_unwritable ''27821234567'' ''hello''
                          (fresh 0))))"
  by (simp add: process_message_def sendWhatsAppMessage.simps send_defs run_defs
        env_history_unwritable_def concrete_defs message_def)

section \<open>The prompt is never cut\<close>

lemma lookup_stored [simp]:
  "lookup (stored userId msgs n) (historyKey userId) = Some (Json (JArr msgs))"
  "lookup (stored userId msgs n) (tokenCountKey userId) = Some (Json (JNum n))"
  "lookup (stored userId msgs n) (cacheKey t) = None"
  by (simp_all add: stored_def fresh_def lookup_def live_def)

lemma prompt_sent:
  assumes "\<forall>i k. \<not> redis_fails env i (GET k)"
      and "\<forall>i. readFile env i = Inr script"
      and "\<forall>v. lookup w (cacheKey userMessage) \<noteq> Some (Json v)"
      and "lookup w (historyKey userId) = Some (Json (JArr hist))"
  shows "Completion (message ''system'' (script @ SCRIPT_SUFFIX) # hist
                       @ [message ''user'' userMessage])
           \<in> set (trace (snd (getAIResponse env userMessage userId w)))"
  using assms
  by (auto simp add: getAIResponse_def getAIResponse_try_def cachedReply_def
        completeAndStore_def getConversationHistory_def getConversationHistory_try_def
        loadSupportScript_def updateConversationHistory_def openai_chat_completions_create_def
        redis_get_def redis_set_ex_def io_defs empty_history_def spread_def Let_def
        JSON_stringify_def JSON_parse_def truthy_def messageArray_def
      split: option.splits rtext.splits sum.splits)

text \<open>
  Claim C3, as the code has it. On a turn that is not answered from the cache (reads of
  the store and the persona load succeeding), the completion request holds the persona,
  then every stored message in its stored order, then the new user message: as many
  messages as the history has, and two more. Nothing is dropped, whatever the stored
  token count is; \<open>MAX_TOKENS\<close> is never consulted.
\<close>

theorem prompt_holds_whole_history:
  assumes "\<forall>i k. \<not> redis_fails env i (GET k)"
      and "\<forall>i. readFile env i = Inr script"
      and "\<forall>v. lookup w (cacheKey userMessage) \<noteq> Some (Json v)"
      and "lookup w (historyKey userId) = Some (Json (JArr hist))"
  shows "Completion (messageArray (message ''system'' (script @ SCRIPT_SUFFIX)) hist userMessage)
           \<in> set (trace (snd (getAIResponse env userMessage userId w))) \<and>
         messageArray (message ''system'' (script @ SCRIPT_SUFFIX)) hist userMessage
           = message ''system'' (script @ SCRIPT_SUFFIX) # hist @ [message ''user'' userMessage] \<and>
         length (messageArray (message ''system'' (script @ SCRIPT_SUFFIX)) hist userMessage)
           = length hist + 2"
  using prompt_sent [OF assms] by (simp add: messageArray_def)

theorem prompt_holds_whole_history_witness:
  "(\<forall>i k. \<not> redis_fails env_up i (GET k)) \<and>
   (\<forall>i. readFile env_up i = Inr ''persona'') \<and>
   (\<forall>v. lookup (stored ''27821234567''
                  [message ''user'' ''hello'', message ''assistant'' ''<reply>''] 200000)
          (cacheKey ''again'') \<noteq> Some (Json v)) \<and>
   lookup (stored ''27821234567''
             [message ''user'' ''hello'', message ''assistant'' ''<reply>''] 200000)
     (historyKey ''27821234567'')
     = Some (Json (JArr [message ''user'' ''hello'', message ''assistant'' ''<reply>''])) \<and>
   Completion [message ''system'' (''persona'' @ SCRIPT_SUFFIX), message ''user'' ''hello'',
               message ''assistant'' ''<reply>'', message ''user'' ''again'']
     \<in> set (trace (snd (getAIResponse env_up ''again'' ''27821234567''
                (stored ''27821234567''
                   [message ''user'' ''hello'', message ''assistant'' ''<reply>''] 200000))))"
proof -
  have e: "(\<forall>i k. \<not> redis_fails env_up i (GET k)) \<and> (\<forall>i. readFile env_up i = Inr ''persona'')"
    by (simp add: env_up_def)
  from e prompt_holds_whole_history
           [of env_up "''persona''"
               "stored ''27821234567''
                  [message ''user'' ''hello'', message ''assistant'' ''<reply>''] 200000"
               "''again''" "''27821234567''"
               "[message ''user'' ''hello'', message ''assistant'' ''<reply>'']"]
  show ?thesis
    by (simp add: messageArray_def)
qed

text \<open>
  The claim as stated fails: with 120000 stored messages the request carries 120002
  messages, the oldest first, and a message costs at least one token.
\<close>

theorem prompt_ceiling_counterexample:
  "Completion (message ''system'' (''persona'' @ SCRIPT_SUFFIX)
                # replicate 120000 (message ''user'' ''hi'') @ [message ''user'' ''hello''])
     \<in> set (trace (snd (getAIResponse env_up ''hello'' ''27821234567''
                (stored ''27821234567'' (replicate 120000 (message ''user'' ''hi'')) 0)))) \<and>
   MAX_TOKENS < int (length (message ''system'' (''persona'' @ SCRIPT_SUFFIX)
                # replicate 120000 (message ''user'' ''hi'') @ [message ''user'' ''hello'']))"
proof -
  have e: "(\<forall>i k. \<not> redis_fails env_up i (GET k)) \<and> (\<forall>i. readFile env_up i = Inr ''persona'')"
    by (simp add: env_up_def)
  from e prompt_sent [of env_up "''persona''"
         "stored ''27821234567'' (replicate 120000 (message ''user'' ''hi'')) 0"
         "''hello''" "''27821234567''" "replicate 120000 (message ''user'' ''hi'')"]
  show ?thesis
    by (simp add: MAX_TOKENS_def)
qed

section \<open>The clear endpoint is not guarded\<close>

text \<open>
  Claim C4, as the code has it. Whatever \<^verbatim>\<open>process.env\<close> holds, the handler of
  \<^verbatim>\<open>POST /dev/clear-redis\<close> sends FLUSHALL: when the command succeeds every key is gone and
  the answer is 200, when it throws the answer is 500. No development mode is read
  anywhere.
\<close>

theorem dev_clear_redis_unconditional:
  "dev_clear_redis (env\<lparr>process_env := pe\<rparr>) w =
     (if redis_fails env (length (trace w)) FLUSHALL
      then (Inr 500, emit (Redis FLUSHALL) w)
      else (Inr 200,
            emit (Redis FLUSHALL) (w\<lparr>redis := Map.empty, last_message := Map.empty\<rparr>)))"
  by (simp add: dev_clear_redis_def redis_flushall_def io_defs)

text \<open>The claim as stated fails: in production mode a stored conversation is flushed.\<close>

theorem dev_clear_redis_counterexample:
  "process_env env_production ''NODE_ENV'' = Some ''production'' \<and>
   lookup (stored ''27821234567''
             [message ''user'' ''hello'', message ''assistant'' ''<reply>''] 42)
     (tokenCountKey ''27821234567'') = Some (Json (JNum 42)) \<and>
   fst (dev_clear_redis env_production
          (stored ''27821234567''
             [message ''user'' ''hello'', message ''assistant'' ''<reply>''] 42))
     = Inr 200 \<and>
   Redis FLUSHALL
     \<in> set (trace (snd (dev_clear_redis env_production
          (stored ''27821234567''
             [message ''user'' ''hello'', message ''assistant'' ''<reply>''] 42)))) \<and>
   lookup (snd (dev_clear_redis env_production
          (stored ''27821234567''
             [message ''user'' ''hello'', message ''assistant'' ''<reply>''] 42)))
     (tokenCountKey ''27821234567'') = None"
  by (simp add: dev_clear_redis_def redis_flushall_def io_defs env_production_def stored_def
        concrete_defs)

section \<open>Retries of the delivery client\<close>

lemma posts_append [simp]: "posts (xs @ ys) = posts xs @ posts ys"
  by (induction xs rule: posts.induct) auto

lemma sleeps_append [simp]: "sleeps (xs @ ys) = sleeps xs @ sleeps ys"
  by (induction xs rule: sleeps.induct) auto

lemma rateLimitCheck_trace [simp]: "trace (snd (rateLimitCheck w)) = trace w"
  by (simp add: rateLimitCheck_def resetWindow_def Let_def)

lemma setTimeout_fields [simp]:
  "trace (setTimeout d w) = trace w @ [Sleep d]"
  "now (setTimeout d w) = now w + timer_delay d"
  "windowStart (setTimeout d w) = windowStart w"
  "messagesSentInWindow (setTimeout d w) = messagesSentInWindow w"
  by (simp_all add: setTimeout_def)


lemma send_wait:
  assumes "rateLimitCheck w = (Some delayMs, w1)"
  shows "sendWhatsAppMessage env to msg retryCount w
           = sendWhatsAppMessage env to msg retryCount (setTimeout delayMs w1)"
  using assms by (simp add: sendWhatsAppMessage.simps [of env to msg retryCount w])

lemma send_failed:
  assumes "rateLimitCheck w = (None, w1)" "deliver env to msg w1 = (Inl e, w2)"
  shows "sendWhatsAppMessage env to msg retryCount w
           = (if recipientNotAllowed e then (Inl (NotAuthorized to), emit (Console Error) w2)
              else if retryCount < 3 \<and> serverError e
              then sendWhatsAppMessage env to msg (retryCount + 1)
                     (setTimeout (2 ^ retryCount * 1000) (emit (Console Error) w2))
              else (Inl e, emit (Console Error) w2))"
  using assms by (simp add: sendWhatsAppMessage.simps [of env to msg retryCount w])

lemma send_delivered:
  assumes "rateLimitCheck w = (None, w1)" "deliver env to msg w1 = (Inr d, w2)"
  shows "sendWhatsAppMessage env to msg retryCount w = (Inr d, w2)"
  using assms by (simp add: sendWhatsAppMessage.simps [of env to msg retryCount w])







section \<open>The send limiter\<close>

lemma granted_after_window:
  assumes "\<forall>t \<in> set ts. b < t"
  shows "[t \<leftarrow> granted w ts. t \<le> b] = []"
  using assms
proof (induction ts arbitrary: w)
  case Nil
  then show ?case by simp
next
  case (Cons t ts)
  then show ?case
    by (auto split: prod.splits option.splits)
qed

lemma window_budget:
  assumes "sorted ts" "messagesSentInWindow w \<le> MAX_MESSAGES_PER_WINDOW"
  shows "int (length [t \<leftarrow> granted w ts. t \<le> windowStart w + MESSAGE_WINDOW_MS])
           \<le> MAX_MESSAGES_PER_WINDOW - messagesSentInWindow w"
  using assms
proof (induction ts arbitrary: w)
  case Nil
  then show ?case by simp
next
  case (Cons t ts)
  show ?case
  proof (cases "MESSAGE_WINDOW_MS < t - windowStart w")
    case True
    with Cons.prems(1) have "\<forall>t' \<in> set (t # ts). windowStart w + MESSAGE_WINDOW_MS < t'"
      by auto
    from granted_after_window [OF this] Cons.prems(2) show ?thesis
      by simp
  next
    case False
    show ?thesis
    proof (cases "MAX_MESSAGES_PER_WINDOW \<le> messagesSentInWindow w")
      case True
      with False have r: "rateLimitCheck (w\<lparr>now := t\<rparr>)
                  = (Some (MESSAGE_WINDOW_MS - (t - windowStart w)), w\<lparr>now := t\<rparr>)"
        by (simp add: rateLimitCheck_def resetWindow_def)
      from Cons.IH [of "w\<lparr>now := t\<rparr>"] Cons.prems r show ?thesis
        by simp
    next
      case g: False
      with False have r: "rateLimitCheck (w\<lparr>now := t\<rparr>)
                  = (None, w\<lparr>now := t, messagesSentInWindow := messagesSentInWindow w + 1\<rparr>)"
        by (simp add: rateLimitCheck_def resetWindow_def)
      from Cons.IH [of "w\<lparr>now := t, messagesSentInWindow := messagesSentInWindow w + 1\<rparr>"]
        Cons.prems r g False show ?thesis
        by simp
    qed
  qed
qed

lemma post_times_append [simp]:
  "sleeps es = [] \<Longrightarrow> post_times t (es @ fs) = post_times t es @ post_times t fs"
  by (induction t es rule: post_times.induct) auto

lemma deliver_effect:
  "\<exists>es. trace (snd (deliver env to msg w)) = trace w @ es \<and> sleeps es = []
        \<and> (\<forall>t. post_times t es = [t])"
  by (auto simp: deliver_def axios_post_message_def redis_set_last_message_def
        redis_expire_last_message_def io_defs split: sum.splits option.splits)

lemma deliver_now [simp]: "now (snd (deliver env to msg w)) = now w"
  by (auto simp: deliver_def axios_post_message_def redis_set_last_message_def
        redis_expire_last_message_def io_defs split: sum.splits option.splits)

lemma rateLimitCheck_now [simp]: "now (snd (rateLimitCheck w)) = now w"
  by (simp add: rateLimitCheck_def resetWindow_def Let_def)

lemma send_post_times:
  "\<exists>es. trace (snd (sendWhatsAppMessage env to msg retryCount w)) = trace w @ es \<and>
        (\<forall>t \<in> set (post_times (now w) es).
            now w \<le> t \<and>
            (MAX_MESSAGES_PER_WINDOW \<le> messagesSentInWindow w
               \<and> now w - windowStart w \<le> MESSAGE_WINDOW_MS
             \<longrightarrow> windowStart w + MESSAGE_WINDOW_MS < t))"
proof (induction env to msg retryCount w rule: sendWhatsAppMessage.induct)
  case (1 env to msg retryCount w)
  obtain slot w1 where r: "rateLimitCheck w = (slot, w1)" by (cases "rateLimitCheck w")
  then have tr: "trace w1 = trace w" "now w1 = now w"
    using rateLimitCheck_trace [of w] rateLimitCheck_now [of w] by simp_all
  show ?case
  proof (cases slot)
    case (Some delayMs)
    with r have r': "rateLimitCheck w = (Some delayMs, w1)" by simp
    note f = rateLimitCheck_wait [OF r']
    from "1.IH"(2) [OF r' [symmetric] refl] obtain es where
      es: "trace (snd (sendWhatsAppMessage env to msg retryCount (setTimeout delayMs w1)))
             = trace (setTimeout delayMs w1) @ es"
      and pt: "\<forall>t \<in> set (post_times (now (setTimeout delayMs w1)) es).
            now (setTimeout delayMs w1) \<le> t \<and>
            (MAX_MESSAGES_PER_WINDOW \<le> messagesSentInWindow (setTimeout delayMs w1)
               \<and> now (setTimeout delayMs w1) - windowStart (setTimeout delayMs w1) \<le> MESSAGE_WINDOW_MS
             \<longrightarrow> windowStart (setTimeout delayMs w1) + MESSAGE_WINDOW_MS < t)"
      by blast
    have pos: "1 \<le> timer_delay delayMs" by (rule timer_delay_pos)
    have "trace (snd (sendWhatsAppMessage env to msg retryCount w)) = trace w @ (Sleep delayMs # es)"
      using es f by (simp add: send_wait [OF r'])
    moreover have "\<forall>t \<in> set (post_times (now w) (Sleep delayMs # es)).
            now w \<le> t \<and>
            (MAX_MESSAGES_PER_WINDOW \<le> messagesSentInWindow w
               \<and> now w - windowStart w \<le> MESSAGE_WINDOW_MS
             \<longrightarrow> windowStart w + MESSAGE_WINDOW_MS < t)"
      using pt f pos by fastforce
    ultimately show ?thesis by blast
  next
    case None
    with r have r': "rateLimitCheck w = (None, w1)" by simp
    have notwait: "\<not> (MAX_MESSAGES_PER_WINDOW \<le> messagesSentInWindow w
               \<and> now w - windowStart w \<le> MESSAGE_WINDOW_MS)"
      using r' by (auto simp: rateLimitCheck_def resetWindow_def Let_def split: if_splits)
    obtain res w2 where d: "deliver env to msg w1 = (res, w2)" by (cases "deliver env to msg w1")
    from deliver_effect [of env to msg w1] d tr obtain ds where
      ds: "trace w2 = trace w @ ds" "sleeps ds = []" "\<And>t. post_times t ds = [t]"
      by auto
    have n2: "now w2 = now w" using deliver_now [of env to msg w1] d tr by simp
    show ?thesis
    proof (cases res)
      case (Inr response_data)
      with d have "sendWhatsAppMessage env to msg retryCount w = (Inr response_data, w2)"
        by (simp add: send_delivered [OF r'])
      with ds notwait show ?thesis by simp
    next
      case (Inl e)
      with d have d': "deliver env to msg w1 = (Inl e, w2)" by simp
      show ?thesis
      proof (cases "\<not> recipientNotAllowed e \<and> retryCount < 3 \<and> serverError e")
        case False
        then have "trace (snd (sendWhatsAppMessage env to msg retryCount w))
                     = trace w @ (ds @ [Console Error])"
          using ds by (auto simp: send_failed [OF r' d'])
        moreover have "post_times (now w) (ds @ [Console Error]) = [now w]"
          using ds by simp
        ultimately show ?thesis using notwait by force
      next
        case True
        let ?w3 = "setTimeout (2 ^ retryCount * 1000) (emit (Console Error) w2)"
        from True have c: "\<not> recipientNotAllowed e" "retryCount < 3 \<and> serverError e" by simp_all
        from "1.IH"(1) [OF r' [symmetric] refl d' [symmetric] refl c] obtain es where
          es: "trace (snd (sendWhatsAppMessage env to msg (retryCount + 1) ?w3))
                 = trace ?w3 @ es"
          and pt: "\<forall>t \<in> set (post_times (now ?w3) es). now ?w3 \<le> t"
          by blast
        have pos: "1 \<le> timer_delay (2 ^ retryCount * 1000)" by (rule timer_delay_pos)
        have "trace (snd (sendWhatsAppMessage env to msg retryCount w))
                = trace w @ (ds @ [Console Error, Sleep (2 ^ retryCount * 1000)] @ es)"
          using es ds c by (simp add: send_failed [OF r' d'])
        moreover have "post_times (now w) (ds @ [Console Error, Sleep (2 ^ retryCount * 1000)] @ es)
                = now w # post_times (now ?w3) es"
          using ds n2 by simp
        ultimately show ?thesis using notwait pt pos n2 by force
      qed
    qed
  qed
qed

text \<open>
  Claim C7. The limiter lets at most 30 sends through per window of 1000 milliseconds.
  A check made after the window has elapsed starts a new window at that instant and counts
  its send as the first. A check made inside the window with the budget used up sends
  nothing: the caller sleeps for the rest of the window and then checks again, and none of
  its posts happens before the window has elapsed. Whatever callers run the check and
  whenever (at clock values that do not decrease), the sends let through up to the end of
  the current window are at most what is left of the 30.
\<close>

theorem send_limiter_window:
  "(MESSAGE_WINDOW_MS < now wa - windowStart wa \<longrightarrow>
      fst (rateLimitCheck wa) = None \<and>
      messagesSentInWindow (snd (rateLimitCheck wa)) = 1 \<and>
      windowStart (snd (rateLimitCheck wa)) = now wa) \<and>
   (MAX_MESSAGES_PER_WINDOW \<le> messagesSentInWindow wb
      \<and> now wb - windowStart wb \<le> MESSAGE_WINDOW_MS \<longrightarrow>
      rateLimitCheck wb = (Some (MESSAGE_WINDOW_MS - (now wb - windowStart wb)), wb) \<and>
      sendWhatsAppMessage env to msg retryCount wb
        = sendWhatsAppMessage env to msg retryCount
            (setTimeout (MESSAGE_WINDOW_MS - (now wb - windowStart wb)) wb) \<and>
      (\<exists>es. trace (snd (sendWhatsAppMessage env to msg retryCount wb)) = trace wb @ es \<and>
            (\<forall>t \<in> set (post_times (now wb) es). windowStart wb + MESSAGE_WINDOW_MS < t))) \<and>
   (sorted ts \<and> messagesSentInWindow wc \<le> MAX_MESSAGES_PER_WINDOW \<longrightarrow>
      int (length [t \<leftarrow> granted wc ts. t \<le> windowStart wc + MESSAGE_WINDOW_MS])
        \<le> MAX_MESSAGES_PER_WINDOW - messagesSentInWindow wc) \<and>
   MESSAGE_WINDOW_MS = 1000 \<and> MAX_MESSAGES_PER_WINDOW = 30"
proof (intro conjI impI)
  assume "MESSAGE_WINDOW_MS < now wa - windowStart wa"
  then show "fst (rateLimitCheck wa) = None"
    "messagesSentInWindow (snd (rateLimitCheck wa)) = 1"
    "windowStart (snd (rateLimitCheck wa)) = now wa"
    by (simp_all add: rateLimitCheck_def resetWindow_def MAX_MESSAGES_PER_WINDOW_def)
next
  assume b: "MAX_MESSAGES_PER_WINDOW \<le> messagesSentInWindow wb
      \<and> now wb - windowStart wb \<le> MESSAGE_WINDOW_MS"
  then show r: "rateLimitCheck wb = (Some (MESSAGE_WINDOW_MS - (now wb - windowStart wb)), wb)"
    by (simp add: rateLimitCheck_def resetWindow_def)
  show "sendWhatsAppMessage env to msg retryCount wb
        = sendWhatsAppMessage env to msg retryCount
            (setTimeout (MESSAGE_WINDOW_MS - (now wb - windowStart wb)) wb)"
    by (rule send_wait [OF r])
  from send_post_times [of env to msg retryCount wb] b
  show "\<exists>es. trace (snd (sendWhatsAppMessage env to msg retryCount wb)) = trace wb @ es \<and>
            (\<forall>t \<in> set (post_times (now wb) es). windowStart wb + MESSAGE_WINDOW_MS < t)"
    by blast
next
  assume "sorted ts \<and> messagesSentInWindow wc \<le> MAX_MESSAGES_PER_WINDOW"
  then show "int (length [t \<leftarrow> granted wc ts. t \<le> windowStart wc + MESSAGE_WINDOW_MS])
        \<le> MAX_MESSAGES_PER_WINDOW - messagesSentInWindow wc"
    by (simp add: window_budget)
next
  show "MESSAGE_WINDOW_MS = 1000" "MAX_MESSAGES_PER_WINDOW = 30"
    by (simp_all add: MESSAGE_WINDOW_MS_def MAX_MESSAGES_PER_WINDOW_def)
qed

theorem send_limiter_window_witness:
  "MESSAGE_WINDOW_MS < now ((fresh 0)\<lparr>now := 1001\<rparr>) - windowStart ((fresh 0)\<lparr>now := 1001\<rparr>) \<and>
   MAX_MESSAGES_PER_WINDOW \<le> messagesSentInWindow exhausted \<and>
   now exhausted - windowStart exhausted \<le> MESSAGE_WINDOW_MS \<and>
   sorted (replicate 31 (0::int)) \<and>
   messagesSentInWindow (fresh 0) \<le> MAX_MESSAGES_PER_WINDOW \<and>
   windowStart (snd (rateLimitCheck ((fresh 0)\<lparr>now := 1001\<rparr>))) = 1001 \<and>
   rateLimitCheck exhausted = (Some 1000, exhausted) \<and>
   trace (snd (sendWhatsAppMessage env_up ''27821234567'' (JStr ''hi'') 0 exhausted))
     = [Sleep 1000, Sleep 0, Post ''27821234567'' (JStr ''hi''),
        Redis (SET ''last_message:27821234567''), Redis (EXPIRE ''last_message:27821234567''),
        Console Log] \<and>
   post_times 0 (trace (snd (sendWhatsAppMessage env_up ''27821234567'' (JStr ''hi'') 0
                               exhausted))) = [1001] \<and>
   granted (fresh 0) (replicate 31 0) = replicate 30 0 \<and>
   int (length [t \<leftarrow> granted (fresh 0) (replicate 31 0). t \<le> 1000]) \<le> 30"
proof -
  have h: "MESSAGE_WINDOW_MS < now ((fresh 0)\<lparr>now := 1001\<rparr>)
                                - windowStart ((fresh 0)\<lparr>now := 1001\<rparr>)"
    "MAX_MESSAGES_PER_WINDOW \<le> messagesSentInWindow exhausted"
    "now exhausted - windowStart exhausted \<le> MESSAGE_WINDOW_MS"
    "sorted (replicate 31 (0::int))"
    "messagesSentInWindow (fresh 0) \<le> MAX_MESSAGES_PER_WINDOW"
    by (simp_all add: fresh_def exhausted_def MESSAGE_WINDOW_MS_def MAX_MESSAGES_PER_WINDOW_def)
  have f: "now exhausted = 0" "windowStart exhausted = 0" "windowStart (fresh 0) = 0"
    "messagesSentInWindow (fresh 0) = 0" "now ((fresh 0)\<lparr>now := 1001\<rparr>) = 1001"
    by (simp_all add: fresh_def exhausted_def)
  have g: "granted (fresh 0) (replicate 31 0) = replicate 30 0"
    by code_simp
  have t: "trace (snd (sendWhatsAppMessage env_up ''27821234567'' (JStr ''hi'') 0 exhausted))
     = [Sleep 1000, Sleep 0, Post ''27821234567'' (JStr ''hi''),
        Redis (SET ''last_message:27821234567''), Redis (EXPIRE ''last_message:27821234567''),
        Console Log]"
    by (simp add: sendWhatsAppMessage.simps send_defs run_defs env_up_def fresh_def
          exhausted_def emit_def)
  have p: "post_times 0 (trace (snd (sendWhatsAppMessage env_up ''27821234567'' (JStr ''hi'') 0
                               exhausted))) = [1001]"
    by (simp add: t timer_delay_def)
  from h send_limiter_window
           [of "(fresh 0)\<lparr>now := 1001\<rparr>" exhausted env_up "''27821234567''" "JStr ''hi''" 0
               "replicate 31 0" "fresh 0"]
  have "windowStart (snd (rateLimitCheck ((fresh 0)\<lparr>now := 1001\<rparr>))) = 1001 \<and>
        rateLimitCheck exhausted = (Some 1000, exhausted) \<and>
        int (length [t \<leftarrow> granted (fresh 0) (replicate 31 0). t \<le> 1000]) \<le> 30"
    by (simp add: f)
  with h g t p show ?thesis
    by simp
qed

section \<open>A completed turn\<close>

lemma getConversationHistory_up:
  assumes "\<forall>i k. \<not> redis_fails env i (GET k)"
  shows "fst (getConversationHistory env userId w) = Inr (storedHistory w userId)"
  using assms
  by (auto simp: getConversationHistory_def getConversationHistory_try_def redis_get_def io_defs
        storedHistory_def truthy_def JSON_parse_def
      split: option.splits rtext.splits sum.splits)

lemma getConversationHistory_frame [simp]:
  "redis (snd (getConversationHistory env userId w)) = redis w"
  "now (snd (getConversationHistory env userId w)) = now w"
  by (simp_all add: getConversationHistory_def getConversationHistory_try_def redis_get_def io_defs
      split: option.splits rtext.splits sum.splits)

lemma lookup_cong: "redis w' = redis w \<Longrightarrow> now w' = now w \<Longrightarrow> lookup w' k = lookup w k"
  by (simp add: lookup_def split: option.splits)

lemma storedHistory_cong:
  "redis w' = redis w \<Longrightarrow> now w' = now w \<Longrightarrow> storedHistory w' u = storedHistory w u"
  using lookup_cong [of w' w] by (simp only: storedHistory_def)


lemma updateConversationHistory_up:
  assumes "\<forall>i c. \<not> redis_fails env i c"
      and "spread (messages (storedHistory w userId)) = Inr old"
  shows "fst (updateConversationHistory env userId new n w)
           = Inr \<lparr>messages = JArr (old @ new),
                  tokenCount = plus_number (tokenCount (storedHistory w userId)) n\<rparr> \<and>
         redis (snd (updateConversationHistory env userId new n w))
           = (redis w)
               (historyKey userId \<mapsto>
                  \<lparr>text_of = Json (JArr (old @ new)),
                   deadline = Some (now w + CONVERSATION_TTL * 1000)\<rparr>,
                tokenCountKey userId \<mapsto>
                  \<lparr>text_of = number_text (plus_number (tokenCount (storedHistory w userId)) n),
                   deadline = Some (now w + CONVERSATION_TTL * 1000)\<rparr>) \<and>
         now (snd (updateConversationHistory env userId new n w)) = now w"
proof -
  obtain h w1 where g: "getConversationHistory env userId w = (Inr h, w1)"
    using getConversationHistory_returns by blast
  with getConversationHistory_up [of env userId w] assms(1)
  have h: "h = storedHistory w userId" by simp
  from g getConversationHistory_frame [of env userId w]
  have f: "redis w1 = redis w" "now w1 = now w" by simp_all
  show ?thesis
    using assms g h f
    by (simp add: updateConversationHistory_def redis_set_ex_def io_defs Let_def
          JSON_stringify_def)
qed

lemma loadSupportScript_up:
  assumes "\<forall>i. readFile env i = Inr script"
  shows "loadSupportScript env w = (Inr (message ''system'' (script @ SCRIPT_SUFFIX)), emit ReadFile w)"
  using assms by (simp add: loadSupportScript_def io_defs)

lemma completeAndStore_up:
  assumes up: "\<forall>i c. \<not> redis_fails env i c"
      and rf: "\<forall>i. readFile env i = Inr script"
      and sp: "spread (messages (storedHistory w userId)) = Inr old"
      and be: "\<forall>i. openai_create env i
                    (messageArray (message ''system'' (script @ SCRIPT_SUFFIX)) old userMessage)
                  = Inr c"
  shows "fst (completeAndStore env userMessage userId w) = Inr (responseData c) \<and>
         redis (snd (completeAndStore env userMessage userId w))
           = (redis w)
               (historyKey userId \<mapsto>
                  \<lparr>text_of = Json (JArr (old @ [message ''user'' userMessage,
                                                message ''assistant'' (choice_content c)])),
                   deadline = Some (now w + CONVERSATION_TTL * 1000)\<rparr>,
                tokenCountKey userId \<mapsto>
                  \<lparr>text_of = number_text (plus_number (tokenCount (storedHistory w userId))
                                            (total_tokens (completion_usage c))),
                   deadline = Some (now w + CONVERSATION_TTL * 1000)\<rparr>,
                cacheKey userMessage \<mapsto>
                  \<lparr>text_of = Json (responseData c), deadline = Some (now w + 3600 * 1000)\<rparr>) \<and>
         now (snd (completeAndStore env userMessage userId w)) = now w"
proof -
  let ?prompt = "messageArray (message ''system'' (script @ SCRIPT_SUFFIX)) old userMessage"
  let ?new = "[message ''user'' userMessage, message ''assistant'' (choice_content c)]"
  obtain h w1 where g: "getConversationHistory env userId w = (Inr h, w1)"
    using getConversationHistory_returns by blast
  with getConversationHistory_up [of env userId w] up
  have h: "h = storedHistory w userId" by simp
  from g getConversationHistory_frame [of env userId w]
  have f1: "redis w1 = redis w" "now w1 = now w" by simp_all
  let ?w3 = "emit (Completion ?prompt) (emit ReadFile w1)"
  have f3: "redis ?w3 = redis w" "now ?w3 = now w" using f1 by simp_all
  have s3: "storedHistory ?w3 userId = storedHistory w userId"
    by (rule storedHistory_cong [OF f3])
  obtain r4 w4 where
    u: "updateConversationHistory env userId ?new (total_tokens (completion_usage c)) ?w3
          = (r4, w4)"
    by (cases "updateConversationHistory env userId ?new (total_tokens (completion_usage c)) ?w3")
  from updateConversationHistory_up [OF up, of ?w3 userId old ?new "total_tokens (completion_usage c)"]
       sp s3 u f3
  have r4: "\<exists>h'. r4 = Inr h'"
    and f4: "redis w4 = (redis w)
               (historyKey userId \<mapsto>
                  \<lparr>text_of = Json (JArr (old @ ?new)),
                   deadline = Some (now w + CONVERSATION_TTL * 1000)\<rparr>,
                tokenCountKey userId \<mapsto>
                  \<lparr>text_of = number_text (plus_number (tokenCount (storedHistory w userId))
                                            (total_tokens (completion_usage c))),
                   deadline = Some (now w + CONVERSATION_TTL * 1000)\<rparr>)"
        "now w4 = now w"
    by simp_all
  from r4 obtain h' where r4': "r4 = Inr h'" by blast
  show ?thesis
    using g h sp be u r4' f4 up
    by (simp add: completeAndStore_def bind_def return_def lift_def Let_def
          loadSupportScript_up [OF rf] openai_chat_completions_create_def redis_set_ex_def
          JSON_stringify_def)
qed

lemma getAIResponse_hit:
  assumes "\<not> redis_fails env (length (trace w)) (GET (cacheKey userMessage))"
      and "lookup w (cacheKey userMessage) = Some (Json v)"
  shows "getAIResponse env userMessage userId w
           = (Inr v, emit (Redis (GET (cacheKey userMessage))) w)"
  using assms
  by (simp add: getAIResponse_def getAIResponse_try_def redis_get_def cachedReply_cases io_defs)

lemma getAIResponse_miss:
  assumes "\<not> redis_fails env (length (trace w)) (GET (cacheKey userMessage))"
      and "\<forall>v. lookup w (cacheKey userMessage) \<noteq> Some (Json v)"
  shows "getAIResponse_try env userMessage userId w
           = completeAndStore env userMessage userId
               (if \<exists>s. lookup w (cacheKey userMessage) = Some (Raw s) \<and> s \<noteq> []
                then emit (Console Warn) (emit (Redis (GET (cacheKey userMessage))) w)
                else emit (Redis (GET (cacheKey userMessage))) w)"
  using assms
  by (auto simp: getAIResponse_try_def redis_get_def cachedReply_cases bind_def
      split: option.splits rtext.splits)

lemma updateConversationHistory_now [simp]:
  "now (snd (updateConversationHistory env userId new n w)) = now w"
proof -
  obtain h w1 where g: "getConversationHistory env userId w = (Inr h, w1)"
    using getConversationHistory_returns by blast
  from g getConversationHistory_frame [of env userId w]
  have f: "now w1 = now w" by simp
  show ?thesis
    using g f
    by (simp add: updateConversationHistory_def redis_set_ex_def io_defs Let_def
          split: sum.splits)
qed

lemma loadSupportScript_now [simp]: "now (snd (loadSupportScript env w)) = now w"
  by (simp add: loadSupportScript_def io_defs split: sum.splits)

lemma completeAndStore_stores:
  assumes "completeAndStore env userMessage userId w = (Inr r, w1)"
  shows "redis w1 (cacheKey userMessage)
           = Some \<lparr>text_of = Json r, deadline = Some (now w + 3600 * 1000)\<rparr> \<and>
         now w1 = now w"
proof -
  obtain h wa where g: "getConversationHistory env userId w = (Inr h, wa)"
    using getConversationHistory_returns by blast
  from g getConversationHistory_frame [of env userId w]
  have fa: "now wa = now w" by simp
  from assms g obtain p wb where l: "loadSupportScript env wa = (Inr p, wb)"
    by (auto simp: completeAndStore_def bind_def split: prod.splits sum.splits)
  from l loadSupportScript_now [of env wa] fa have fb: "now wb = now w" by simp
  from assms g l obtain old where s: "spread (messages h) = Inr old"
    by (auto simp: completeAndStore_def bind_def lift_def split: prod.splits sum.splits)
  from assms g l s obtain c where
    o: "openai_create env (length (trace wb)) (messageArray p old userMessage) = Inr c"
    by (auto simp: completeAndStore_def bind_def lift_def openai_chat_completions_create_def
        split: prod.splits sum.splits)
  let ?wc = "emit (Completion (messageArray p old userMessage)) wb"
  from assms g l s o obtain h' wd where
    u: "updateConversationHistory env userId
          [message ''user'' userMessage, message ''assistant'' (choice_content c)]
          (total_tokens (completion_usage c)) ?wc = (Inr h', wd)"
    by (auto simp: completeAndStore_def bind_def lift_def openai_chat_completions_create_def
          Let_def split: prod.splits sum.splits)
  from u updateConversationHistory_now
         [of env userId "[message ''user'' userMessage, message ''assistant'' (choice_content c)]"
             "total_tokens (completion_usage c)" ?wc] fb
  have fd: "now wd = now w" by simp
  from assms g l s o u fd show ?thesis
    by (auto simp: completeAndStore_def bind_def lift_def return_def
          openai_chat_completions_create_def redis_set_ex_def JSON_stringify_def
          Let_def split: if_splits)
qed

lemma getAIResponse_try_reaches:
  assumes "getAIResponse_try env T u w = (Inr r, w1)"
  shows "\<not> redis_fails env (length (trace w)) (GET (cacheKey T))"
  using assms
  by (auto simp: getAIResponse_try_def redis_get_def bind_def split: if_splits)

section \<open>The response cache\<close>

text \<open>
  Claim C5. Let a first call of \<^verbatim>\<open>getAIResponse\<close> with text \<open>T\<close> find no parsable cache entry
  and complete without error, returning \<open>r\<close>. Then \<open>r\<close> is the \<^verbatim>\<open>{content, usage}\<close> of a
  backend answer and is stored under the key of \<open>T\<close>; and a second call with \<open>T\<close>, for any
  user, less than 3600 seconds later (its lookup reaching the store), returns exactly \<open>r\<close>
  and does nothing but that one GET: no completion request, no write to any key.
\<close>

theorem cache_hit_returns_stored_reply:
  assumes "\<forall>v. lookup w (cacheKey T) \<noteq> Some (Json v)"
      and "getAIResponse_try env T userId1 w = (Inr r, w1)"
      and "0 \<le> gap" "gap < 3600 * 1000"
      and "\<not> redis_fails env (length (trace w1)) (GET (cacheKey T))"
  shows "getAIResponse env T userId1 w = (Inr r, w1) \<and>
         (\<exists>i p c. openai_create env i p = Inr c \<and> r = responseData c) \<and>
         lookup w1 (cacheKey T) = Some (Json r) \<and>
         getAIResponse env T userId2 (w1\<lparr>now := now w1 + gap\<rparr>)
           = (Inr r, emit (Redis (GET (cacheKey T))) (w1\<lparr>now := now w1 + gap\<rparr>))"
proof -
  let ?w0 = "if \<exists>s. lookup w (cacheKey T) = Some (Raw s) \<and> s \<noteq> []
             then emit (Console Warn) (emit (Redis (GET (cacheKey T))) w)
             else emit (Redis (GET (cacheKey T))) w"
  have n0: "now ?w0 = now w" by simp
  from getAIResponse_miss [OF getAIResponse_try_reaches [OF assms(2)] assms(1), of userId1] assms(2)
  have c: "completeAndStore env T userId1 ?w0 = (Inr r, w1)" by simp
  from completeAndStore_stores [OF c] n0
  have st: "redis w1 (cacheKey T) = Some \<lparr>text_of = Json r, deadline = Some (now w + 3600 * 1000)\<rparr>"
    and n1: "now w1 = now w" by simp_all
  have first: "getAIResponse env T userId1 w = (Inr r, w1)"
    using assms(2) by (simp add: getAIResponse_catches)
  have be: "\<exists>i p c. openai_create env i p = Inr c \<and> r = responseData c"
    using getAIResponse_try_Inr [OF assms(2)] assms(1) by blast
  have l1: "lookup w1 (cacheKey T) = Some (Json r)"
    using st n1 by (simp add: lookup_def live_def)
  have l2: "lookup (w1\<lparr>now := now w1 + gap\<rparr>) (cacheKey T) = Some (Json r)"
    using st n1 assms(4) by (simp add: lookup_def live_def)
  have reach: "\<not> redis_fails env (length (trace (w1\<lparr>now := now w1 + gap\<rparr>))) (GET (cacheKey T))"
    using assms(5) by simp
  from first be l1 getAIResponse_hit [OF reach l2, of userId2]
  show ?thesis by simp
qed

theorem cache_hit_returns_stored_reply_witness:
  "(\<forall>v. lookup (fresh 0) (cacheKey ''hello'') \<noteq> Some (Json v)) \<and>
   getAIResponse_try env_up ''hello'' ''27821234567'' (fresh 0)
     = (Inr (responseData reply42),
        snd (getAIResponse_try env_up ''hello'' ''27821234567'' (fresh 0))) \<and>
   (0::int) \<le> 1000 \<and> (1000::int) < 3600 * 1000 \<and>
   \<not> redis_fails env_up
       (length (trace (snd (getAIResponse_try env_up ''hello'' ''27821234567'' (fresh 0)))))
       (GET (cacheKey ''hello'')) \<and>
   fst (getAIResponse env_up ''hello'' ''27829999999''
         ((snd (getAIResponse_try env_up ''hello'' ''27821234567'' (fresh 0)))
            \<lparr>now := now (snd (getAIResponse_try env_up ''hello'' ''27821234567'' (fresh 0)))
                     + 1000\<rparr>))
     = Inr (responseData reply42)"
proof -
  have t: "fst (getAIResponse_try env_up ''hello'' ''27821234567'' (fresh 0))
             = Inr (responseData reply42)"
    by (simp add: run_defs env_up_def concrete_defs)
  have h: "getAIResponse_try env_up ''hello'' ''27821234567'' (fresh 0)
     = (Inr (responseData reply42),
        snd (getAIResponse_try env_up ''hello'' ''27821234567'' (fresh 0)))"
    using t by (metis prod.collapse)
  have r: "\<not> redis_fails env_up
       (length (trace (snd (getAIResponse_try env_up ''hello'' ''27821234567'' (fresh 0)))))
       (GET (cacheKey ''hello''))"
    by (simp add: env_up_def)
  from h r cache_hit_returns_stored_reply
         [of "fresh 0" "''hello''" env_up "''27821234567''" "responseData reply42"
             "snd (getAIResponse_try env_up ''hello'' ''27821234567'' (fresh 0))" 1000
             "''27829999999''"]
  show ?thesis
    by simp
qed

section \<open>A cache entry that does not parse\<close>

lemma getConversationHistory_trace:
  "\<exists>es. trace (snd (getConversationHistory env userId w)) = trace w @ es"
  by (simp add: getConversationHistory_def getConversationHistory_try_def redis_get_def io_defs
      split: option.splits rtext.splits sum.splits)

lemma updateConversationHistory_trace:
  "\<exists>es. trace (snd (updateConversationHistory env userId new n w)) = trace w @ es"
proof -
  obtain h w1 where g: "getConversationHistory env userId w = (Inr h, w1)"
    using getConversationHistory_returns by blast
  from g getConversationHistory_trace [of env userId w]
  obtain es where f: "trace w1 = trace w @ es" by auto
  show ?thesis
    using g f
    by (simp add: updateConversationHistory_def redis_set_ex_def io_defs Let_def
          split: sum.splits)
qed

lemma completeAndStore_up_trace:
  assumes up: "\<forall>i c. \<not> redis_fails env i c"
      and rf: "\<forall>i. readFile env i = Inr script"
      and sp: "spread (messages (storedHistory w userId)) = Inr old"
      and be: "\<forall>i. openai_create env i
                    (messageArray (message ''system'' (script @ SCRIPT_SUFFIX)) old userMessage)
                  = Inr c"
  shows "\<exists>es. trace (snd (completeAndStore env userMessage userId w)) = trace w @ es \<and>
              Completion (messageArray (message ''system'' (script @ SCRIPT_SUFFIX)) old
                            userMessage) \<in> set es"
proof -
  let ?prompt = "messageArray (message ''system'' (script @ SCRIPT_SUFFIX)) old userMessage"
  let ?new = "[message ''user'' userMessage, message ''assistant'' (choice_content c)]"
  obtain h w1 where g: "getConversationHistory env userId w = (Inr h, w1)"
    using getConversationHistory_returns by blast
  with getConversationHistory_up [of env userId w] up
  have h: "h = storedHistory w userId" by simp
  from g getConversationHistory_trace [of env userId w]
  obtain es1 where f1: "trace w1 = trace w @ es1" by auto
  let ?w3 = "emit (Completion ?prompt) (emit ReadFile w1)"
  obtain r4 w4 where
    u: "updateConversationHistory env userId ?new (total_tokens (completion_usage c)) ?w3
          = (r4, w4)"
    by (cases "updateConversationHistory env userId ?new (total_tokens (completion_usage c)) ?w3")
  from u updateConversationHistory_trace
           [of env userId ?new "total_tokens (completion_usage c)" ?w3]
  obtain es4 where f4: "trace w4 = trace ?w3 @ es4" by auto
  show ?thesis
    using g h sp be u f1 f4
    by (simp add: completeAndStore_def bind_def return_def lift_def Let_def
          loadSupportScript_up [OF rf] openai_chat_completions_create_def redis_set_ex_def
          JSON_stringify_def split: sum.splits)
qed

text \<open>
  Claim C10, as the code has it. When the cache entry of the text is a non-empty text that
  \<^verbatim>\<open>JSON.parse\<close> rejects, \<^verbatim>\<open>getAIResponse\<close> logs a warning right after the lookup and goes on
  as on a miss. When the store, the persona load and the backend then work, the backend is
  asked with persona, history and the new message, the history is extended by the new
  pair, the entry is overwritten with the new \<^verbatim>\<open>{content, usage}\<close>, and that value is
  returned.
\<close>

theorem unparsable_cache_entry_is_a_miss:
  assumes "lookup w (cacheKey T) = Some (Raw s)" "s \<noteq> []"
      and "\<forall>i c. \<not> redis_fails env i c"
      and "\<forall>i. readFile env i = Inr script"
      and "fst (getConversationHistory env userId w) = Inr h"
      and "spread (messages h) = Inr old"
      and "\<forall>i. openai_create env i
                 (messageArray (message ''system'' (script @ SCRIPT_SUFFIX)) old T) = Inr c"
  shows "fst (getAIResponse env T userId w) = Inr (responseData c) \<and>
         (\<exists>es. trace (snd (getAIResponse env T userId w))
                 = trace w @ Redis (GET (cacheKey T)) # Console Warn # es \<and>
               Completion (messageArray (message ''system'' (script @ SCRIPT_SUFFIX)) old T)
                 \<in> set es) \<and>
         lookup (snd (getAIResponse env T userId w)) (historyKey userId)
           = Some (Json (JArr (old @ [message ''user'' T,
                                      message ''assistant'' (choice_content c)]))) \<and>
         lookup (snd (getAIResponse env T userId w)) (cacheKey T)
           = Some (Json (responseData c))"
proof -
  let ?w0 = "emit (Console Warn) (emit (Redis (GET (cacheKey T))) w)"
  have miss: "\<forall>v. lookup w (cacheKey T) \<noteq> Some (Json v)" using assms(1) by simp
  have reach: "\<not> redis_fails env (length (trace w)) (GET (cacheKey T))" using assms(3) by simp
  have t: "getAIResponse_try env T userId w = completeAndStore env T userId ?w0"
    using getAIResponse_miss [OF reach miss, of userId] assms(1,2) by simp
  have hh: "h = storedHistory w userId"
    using getConversationHistory_up [of env userId w] assms(3,5) by simp
  have s0: "storedHistory ?w0 userId = storedHistory w userId"
    by (rule storedHistory_cong) simp_all
  have sp: "spread (messages (storedHistory ?w0 userId)) = Inr old"
    using assms(6) hh s0 by simp
  note c = completeAndStore_up [OF assms(3,4) sp assms(7)]
  note ct = completeAndStore_up_trace [OF assms(3,4) sp assms(7)]
  obtain r1 w1 where cs: "completeAndStore env T userId ?w0 = (r1, w1)"
    by (cases "completeAndStore env T userId ?w0")
  from c cs have r1: "r1 = Inr (responseData c)" by simp
  have g: "getAIResponse env T userId w = (Inr (responseData c), w1)"
    using t cs r1 by (simp add: getAIResponse_catches)
  from c cs have n1: "now w1 = now w" by simp
  have l1: "lookup w1 (historyKey userId)
           = Some (Json (JArr (old @ [message ''user'' T,
                                      message ''assistant'' (choice_content c)])))"
     "lookup w1 (cacheKey T) = Some (Json (responseData c))"
    using c cs n1 by (simp_all add: lookup_def live_def CONVERSATION_TTL_def)
  from ct cs obtain es where
    "trace w1 = trace ?w0 @ es"
    "Completion (messageArray (message ''system'' (script @ SCRIPT_SUFFIX)) old T) \<in> set es"
    by auto
  with g l1 show ?thesis by simp
qed

theorem unparsable_cache_entry_is_a_miss_witness:
  "lookup (cached ''hello'' (Raw ''{oops'')) (cacheKey ''hello'') = Some (Raw ''{oops'') \<and>
   ''{oops'' \<noteq> [] \<and>
   (\<forall>i c. \<not> redis_fails env_up i c) \<and>
   (\<forall>i. readFile env_up i = Inr ''persona'') \<and>
   fst (getConversationHistory env_up ''27821234567'' (cached ''hello'' (Raw ''{oops'')))
     = Inr empty_history \<and>
   spread (messages empty_history) = Inr [] \<and>
   (\<forall>i. openai_create env_up i
          (messageArray (message ''system'' (''persona'' @ SCRIPT_SUFFIX)) [] ''hello'')
        = Inr reply42) \<and>
   fst (getAIResponse env_up ''hello'' ''27821234567'' (cached ''hello'' (Raw ''{oops'')))
     = Inr (responseData reply42) \<and>
   lookup (snd (getAIResponse env_up ''hello'' ''27821234567''
                  (cached ''hello'' (Raw ''{oops''))))
     (cacheKey ''hello'') = Some (Json (responseData reply42))"
proof -
  have l: "lookup (cached ''hello'' (Raw ''{oops'')) (cacheKey ''hello'') = Some (Raw ''{oops'')"
    by (simp add: cached_def fresh_def lookup_def live_def)
  have e: "(\<forall>i c. \<not> redis_fails env_up i c) \<and> (\<forall>i. readFile env_up i = Inr ''persona'') \<and>
           (\<forall>i. openai_create env_up i
              (messageArray (message ''system'' (''persona'' @ SCRIPT_SUFFIX)) [] ''hello'')
            = Inr reply42)"
    by (simp add: env_up_def)
  have h: "fst (getConversationHistory env_up ''27821234567'' (cached ''hello'' (Raw ''{oops'')))
             = Inr empty_history"
    by (rule getConversationHistory_absent)
       (simp_all add: cached_def fresh_def lookup_def)
  have s: "spread (messages empty_history) = Inr []"
    by (simp add: spread_def empty_history_def)
  from l e h s unparsable_cache_entry_is_a_miss
         [of "cached ''hello'' (Raw ''{oops'')" "''hello''" "''{oops''" env_up "''persona''"
             "''27821234567''" empty_history "[]" reply42]
  show ?thesis
    by simp
qed

text \<open>
  The claim as stated fails for an entry that is the empty string: it does not parse as
  JSON either, but the lookup result is falsy, so the parse is not tried and no warning is
  logged; the turn goes on as a miss.
\<close>

theorem unparsable_cache_entry_counterexample:
  "lookup (cached ''hello'' (Raw [])) (cacheKey ''hello'') = Some (Raw []) \<and>
   JSON_parse (Raw []) = Inl SyntaxError \<and>
   fst (getAIResponse env_up ''hello'' ''27821234567'' (cached ''hello'' (Raw [])))
     = Inr (responseData reply42) \<and>
   Console Warn
     \<notin> set (trace (snd (getAIResponse env_up ''hello'' ''27821234567''
                          (cached ''hello'' (Raw [])))))"
  by (simp add: run_defs cached_def concrete_defs message_def messageArray_def)

section \<open>History and token count after N turns\<close>









end
